theory Spec2Isabelle
  imports Complex_Main
begin

section \<open>Arbitrary-precision integers of the client (bn.js)\<close>

text \<open>
  Every on-chain amount reaches the client as a \<^verbatim>\<open>BN\<close>: an immutable-by-convention,
  arbitrary-precision signed integer, modelled as \<^typ>\<open>int\<close>. \<^verbatim>\<open>add\<close>, \<^verbatim>\<open>sub\<close> and
  \<^verbatim>\<open>mul\<close> return a fresh value and leave the receiver untouched (the in-place
  variants are \<^verbatim>\<open>iadd\<close>, \<^verbatim>\<open>isub\<close>, \<^verbatim>\<open>imul\<close>); \<^verbatim>\<open>div\<close> truncates toward zero.
\<close>

definition bn_div :: "int \<Rightarrow> int \<Rightarrow> int" where
  "bn_div a b = sgn a * sgn b * (\<bar>a\<bar> div \<bar>b\<bar>)"

text \<open>
  \<^verbatim>\<open>divRound\<close> of bn.js: truncated quotient and remainder first; an exact division
  returns the quotient; otherwise the remainder (shifted by the divisor when the
  quotient is negative) is compared with half the divisor (its magnitude shifted
  right by one bit, with its sign), and the quotient moves one step away from zero
  unless the comparison says to round down.
\<close>

definition bn_divRound :: "int \<Rightarrow> int \<Rightarrow> int" where
  "bn_divRound a num =
     (let dv = bn_div a num;
          md = a - num * dv
      in if md = 0 then dv
         else
           let md' = (if dv < 0 then md - num else md);
               half = sgn num * (\<bar>num\<bar> div 2);
               r2 = \<bar>num\<bar> mod 2
           in if md' < half \<or> (r2 = 1 \<and> md' = half) then dv
              else if dv < 0 then dv - 1 else dv + 1)"

section \<open>JavaScript values and numbers\<close>

text \<open>
  Values that reach an \<^verbatim>\<open>unknown\<close>-typed parameter, and values that are thrown:
  \<^verbatim>\<open>undefined\<close>, \<^verbatim>\<open>null\<close>, booleans, integral numbers, strings, arrays, plain
  objects (properties in insertion order), \<^verbatim>\<open>Error\<close> instances (name and message,
  no enumerable property of their own) and instances of the client's class
  \<^verbatim>\<open>AdrenaTransactionError\<close> (its two fields). A function that can throw returns
  \<open>js_value + 'a\<close>, with the thrown value on the left.
\<close>

datatype js_value =
    JUndefined
  | JNull
  | JBool bool
  | JNum int
  | JStr string
  | JArr "js_value list"
  | JObj "(string \<times> js_value) list"
  | JError string string
  | JAdrena "string option" string

text \<open>Sequencing of steps that may throw.\<close>

definition sum_bind :: "'e + 'a \<Rightarrow> ('a \<Rightarrow> 'e + 'b) \<Rightarrow> 'e + 'b" where
  "sum_bind m f = (case m of Inl e \<Rightarrow> Inl e | Inr a \<Rightarrow> f a)"

fun truthy :: "js_value \<Rightarrow> bool" where
  "truthy JUndefined = False"
| "truthy JNull = False"
| "truthy (JBool b) = b"
| "truthy (JNum n) = (n \<noteq> 0)"
| "truthy (JStr s) = (s \<noteq> [])"
| "truthy _ = True"

text \<open>
  A \<^verbatim>\<open>number\<close> is a finite value, an infinity or NaN. In the fee and
  compute-budget code below, finite values are taken as exact reals and only the
  special values that a division can produce are modelled. \<^verbatim>\<open>Math.max\<close> and
  \<^verbatim>\<open>Math.min\<close> return NaN as soon as one argument is NaN.
\<close>

datatype js_number = Num real | PosInfinity | NegInfinity | NaN

definition js_divide :: "real \<Rightarrow> real \<Rightarrow> js_number" where
  "js_divide a b =
     (if b \<noteq> 0 then Num (a / b)
      else if a > 0 then PosInfinity
      else if a < 0 then NegInfinity
      else NaN)"

fun Math_max :: "js_number \<Rightarrow> js_number \<Rightarrow> js_number" where
  "Math_max NaN y = NaN"
| "Math_max x NaN = NaN"
| "Math_max PosInfinity y = PosInfinity"
| "Math_max x PosInfinity = PosInfinity"
| "Math_max NegInfinity y = y"
| "Math_max x NegInfinity = x"
| "Math_max (Num a) (Num b) = Num (max a b)"

fun Math_min :: "js_number \<Rightarrow> js_number \<Rightarrow> js_number" where
  "Math_min NaN y = NaN"
| "Math_min x NaN = NaN"
| "Math_min NegInfinity y = NegInfinity"
| "Math_min x NegInfinity = NegInfinity"
| "Math_min PosInfinity y = y"
| "Math_min x PosInfinity = x"
| "Math_min (Num a) (Num b) = Num (min a b)"

text \<open>
  \<^verbatim>\<open>BN.toNumber\<close> asserts that the magnitude fits 53 bits and throws otherwise.
  \<^verbatim>\<open>new BN(number)\<close> asserts the same bound and keeps the integral part of the
  magnitude, with the sign.
\<close>

definition bn_toNumber :: "int \<Rightarrow> js_value + int" where
  "bn_toNumber n =
     (if \<bar>n\<bar> < 2 ^ 53 then Inr n
      else Inl (JError ''Error'' ''Number can only safely store up to 53 bits''))"

definition bn_of_number :: "real \<Rightarrow> js_value + int" where
  "bn_of_number x =
     (if \<bar>x\<bar> < 2 ^ 53 then Inr (sgn \<lfloor>x\<rfloor> * \<lfloor>\<bar>x\<bar>\<rfloor>)
      else Inl (JError ''Error'' ''Assertion failed''))"

text \<open>
  Rounding to binary64, for the conversions between human and native amounts: the
  nearest number with a 53-bit significand, ties to the even significand.
  \<open>binary_exponent\<close> finds the exponent \<open>e\<close> with \<open>2\<^sup>e \<le> x < 2\<^sup>e\<^sup>+\<^sup>1\<close> by halving or
  doubling; below \<open>2\<^sup>-\<^sup>1\<^sup>0\<^sup>2\<^sup>2\<close> the spacing stays that of the subnormal numbers.
  Magnitudes from \<open>2\<^sup>1\<^sup>0\<^sup>2\<^sup>4\<close> on, which round to an infinity, are outside the
  model. A decimal literal, a product, a quotient, a sum and \<^verbatim>\<open>Number(text)\<close> are
  each the rounded exact result.
\<close>

definition round_half_even :: "real \<Rightarrow> int" where
  "round_half_even x =
     (let f = \<lfloor>x\<rfloor>; r = x - of_int f
      in if r < 1 / 2 then f else if r > 1 / 2 then f + 1 else if even f then f else f + 1)"

fun binary_exponent :: "nat \<Rightarrow> real \<Rightarrow> int \<Rightarrow> int" where
  "binary_exponent 0 x e = e"
| "binary_exponent (Suc n) x e =
     (if 2 \<le> x then binary_exponent n (x / 2) (e + 1)
      else if x < 1 then binary_exponent n (x * 2) (e - 1)
      else e)"

definition binary64 :: "real \<Rightarrow> real" where
  "binary64 x =
     (if x = 0 then 0
      else let e = max (binary_exponent 1100 \<bar>x\<bar> 0) (- 1022);
               ulp = 2 powi (e - 52)
           in sgn x * of_int (round_half_even (\<bar>x\<bar> / ulp)) * ulp)"

section \<open>Conversions between human and native amounts\<close>


text \<open>
  \<^verbatim>\<open>nativeToUi\<close>: a \<^verbatim>\<open>BigNumber\<close> holds the integer exactly and shifts it by the
  decimals exactly; \<^verbatim>\<open>toNumber()\<close> rounds the decimal to binary64.
\<close>

definition nativeToUi :: "int \<Rightarrow> nat \<Rightarrow> real" where
  "nativeToUi nb decs = binary64 (of_int nb / 10 ^ decs)"

text \<open>
  \<^verbatim>\<open>uiToNative\<close>: \<^verbatim>\<open>Math.floor(nb * 10 ** decimals)\<close> on numbers, then the decimal
  text of the result read back as a \<^verbatim>\<open>BN\<close>. The power is the rounded exact power
  and the product the rounded exact product. From \<open>10\<^sup>2\<^sup>1\<close> on the text of a number is
  in exponent notation, which \<^verbatim>\<open>BN\<close> does not read as that number; the model throws
  there.
\<close>

definition uiToNative :: "real \<Rightarrow> nat \<Rightarrow> js_value + int" where
  "uiToNative nb decs =
     (let floored = \<lfloor>binary64 (nb * binary64 (10 ^ decs))\<rfloor>
      in if \<bar>floored\<bar> < 10 ^ 21 then Inr floored
         else Inl (JError ''Error'' ''Invalid character''))"

text \<open>\<^verbatim>\<open>uiLeverageToNative\<close>, with the same multiplication.\<close>

definition uiLeverageToNative :: "real \<Rightarrow> int" where
  "uiLeverageToNative leverage = \<lfloor>binary64 (leverage * 10000)\<rfloor>"

section \<open>Addresses and the client\<close>

text \<open>
  \<^verbatim>\<open>PublicKey.findProgramAddressSync(seeds, programId)[0]\<close> belongs to the web3
  library: SHA-256 over the seeds, a bump and the program id, retried until the
  digest is off the curve. It is modelled symbolically, as in protocol
  verification: the derived address is the free constructor \<open>Pda\<close> applied to the
  seeds and the program, so two derivations give the same address exactly when
  their seeds and program are the same (no collision of the digest). A seed is a
  buffer of bytes (\<^verbatim>\<open>Buffer.from\<close> of a string or of a byte array) or the 32 bytes
  of an address (\<^verbatim>\<open>toBuffer()\<close>). An address that is not derived is a \<open>Key\<close>, named
  by its base-58 text.
\<close>

datatype PublicKey = Key string | Pda "seed list" PublicKey
  and seed = Buf string | KeyBuf PublicKey

definition findProgramAddressSync :: "seed list \<Rightarrow> PublicKey \<Rightarrow> PublicKey" where
  "findProgramAddressSync seeds program = Pda seeds program"

definition TOKEN_PROGRAM_ID :: PublicKey where
  "TOKEN_PROGRAM_ID = Key ''TokenkegQfeZyiNwAJbNbGKPFXCWuBvf9Ss623VQ5DA''"

definition ASSOCIATED_TOKEN_PROGRAM_ID :: PublicKey where
  "ASSOCIATED_TOKEN_PROGRAM_ID = Key ''ATokenGPvbdGVxr1b2hvZbsiqW5xWH25efTNsLJA8knL''"

definition SystemProgram_programId :: PublicKey where
  "SystemProgram_programId = Key ''11111111111111111111111111111111''"

record U128Split =
  high :: int
  low :: int

record BorrowRateState =
  currentRate :: int
  cumulativeInterest :: U128Split
  lastUpdate :: int

record Custody =
  custody_oracle :: PublicKey
  tradeOracle :: PublicKey
  borrowRateState :: BorrowRateState

record CustodyExtended =
  custody_pubkey :: PublicKey
  custody_mint :: PublicKey
  custody_nativeObject :: Custody

record Position =
  cumulativeInterestSnapshot :: U128Split
  borrowSizeUsd :: int
  unrealizedInterestUsd :: int

record PositionExtended =
  position_pubkey :: PublicKey
  position_nativeObject :: Position

record Token =
  token_mint :: PublicKey
  symbol :: string
  decimals :: nat
  isStable :: bool
  token_custody :: "PublicKey option"

record IdlErrorCode =
  code :: nat
  name :: string
  msg :: "string option"

datatype PriorityFeeOption = fee_medium | fee_high | fee_ultra

text \<open>
  The fields of \<^verbatim>\<open>AdrenaClient\<close> that the functions below read. A program is
  represented by the error table of its IDL; \<open>None\<close> is \<^verbatim>\<open>null\<close>. The client's
  \<^verbatim>\<open>connection\<close> getter returns the connection of \<open>adrenaProgram\<close>, and \<^verbatim>\<open>null\<close>
  when that program is \<^verbatim>\<open>null\<close>.
\<close>

record AdrenaClient =
  programId :: PublicKey
  adrenaProgram :: "IdlErrorCode list option"
  readonlyAdrenaProgram :: "IdlErrorCode list option"
  mainPool_pubkey :: PublicKey
  custodies :: "CustodyExtended list"
  tokens :: "Token list"
  cortex_protocolFeeRecipient :: PublicKey
  priorityFeeOption :: PriorityFeeOption
  maxPriorityFee :: "real option"
  positionPdaCache :: "string \<rightharpoonup> PublicKey"

definition connection :: "AdrenaClient \<Rightarrow> bool" where
  "connection client = (adrenaProgram client \<noteq> None)"

definition findATAAddressSync :: "PublicKey \<Rightarrow> PublicKey \<Rightarrow> PublicKey" where
  "findATAAddressSync wallet mint =
     findProgramAddressSync [KeyBuf wallet, KeyBuf TOKEN_PROGRAM_ID, KeyBuf mint]
       ASSOCIATED_TOKEN_PROGRAM_ID"

definition transferAuthorityAddress :: "AdrenaClient \<Rightarrow> PublicKey" where
  "transferAuthorityAddress client =
     findProgramAddressSync [Buf ''transfer_authority''] (programId client)"

definition cortexPda :: "AdrenaClient \<Rightarrow> PublicKey" where
  "cortexPda client = findProgramAddressSync [Buf ''cortex''] (programId client)"

definition lpTokenMint :: "AdrenaClient \<Rightarrow> PublicKey" where
  "lpTokenMint client =
     findProgramAddressSync [Buf ''lp_token_mint'', KeyBuf (mainPool_pubkey client)]
       (programId client)"

definition lmTokenMint :: "AdrenaClient \<Rightarrow> PublicKey" where
  "lmTokenMint client = findProgramAddressSync [Buf ''lm_token_mint''] (programId client)"

definition getStakingPda :: "AdrenaClient \<Rightarrow> PublicKey \<Rightarrow> PublicKey" where
  "getStakingPda client stakedTokenMint =
     findProgramAddressSync [Buf ''staking'', KeyBuf stakedTokenMint] (programId client)"

definition getStakingRewardTokenVaultPda :: "AdrenaClient \<Rightarrow> PublicKey \<Rightarrow> PublicKey" where
  "getStakingRewardTokenVaultPda client stakingPda =
     findProgramAddressSync [Buf ''staking_reward_token_vault'', KeyBuf stakingPda]
       (programId client)"


definition findCustodyAddress :: "AdrenaClient \<Rightarrow> PublicKey \<Rightarrow> PublicKey" where
  "findCustodyAddress client mint =
     findProgramAddressSync [Buf ''custody'', KeyBuf (mainPool_pubkey client), KeyBuf mint]
       (programId client)"

definition findCustodyTokenAccountAddress :: "AdrenaClient \<Rightarrow> PublicKey \<Rightarrow> PublicKey" where
  "findCustodyTokenAccountAddress client mint =
     findProgramAddressSync
       [Buf ''custody_token_account'', KeyBuf (mainPool_pubkey client), KeyBuf mint]
       (programId client)"

text \<open>
  The two derivations of a position's address. \<^verbatim>\<open>toBase58\<close> is the web3 library's
  rendering of an address and is a parameter; the cache is the client's
  \<^verbatim>\<open>positionPdaCache\<close>, and \<open>getPositionPda\<close> returns the client with the cache as
  the call leaves it.
\<close>

datatype side = long | short

fun side_text :: "side \<Rightarrow> string" where
  "side_text long = ''long''"
| "side_text short = ''short''"

fun side_byte :: "side \<Rightarrow> char" where
  "side_byte long = CHR 0x01"
| "side_byte short = CHR 0x02"

definition positionCacheKey :: "(PublicKey \<Rightarrow> string) \<Rightarrow> PublicKey \<Rightarrow> Token \<Rightarrow> side \<Rightarrow> string" where
  "positionCacheKey toBase58 owner token sd =
     toBase58 owner @ ''-'' @ toBase58 (token_mint token) @ ''-'' @ side_text sd"

definition derivePositionPda :: "AdrenaClient \<Rightarrow> PublicKey \<Rightarrow> Token \<Rightarrow> side \<Rightarrow> PublicKey" where
  "derivePositionPda client owner token sd =
     findProgramAddressSync
       [Buf ''position'', KeyBuf owner, KeyBuf (token_mint token), Buf (side_text sd)]
       (programId client)"

definition getPositionPda ::
  "(PublicKey \<Rightarrow> string) \<Rightarrow> AdrenaClient \<Rightarrow> PublicKey \<Rightarrow> Token \<Rightarrow> side \<Rightarrow> PublicKey \<times> AdrenaClient" where
  "getPositionPda toBase58 client owner token sd =
     (let cacheKey = positionCacheKey toBase58 owner token sd
      in case positionPdaCache client cacheKey of
           Some cached \<Rightarrow> (cached, client)
         | None \<Rightarrow>
             let pda = derivePositionPda client owner token sd
             in (pda, client \<lparr> positionPdaCache := (positionPdaCache client)(cacheKey \<mapsto> pda) \<rparr>))"

definition findPositionAddress :: "AdrenaClient \<Rightarrow> PublicKey \<Rightarrow> PublicKey \<Rightarrow> side \<Rightarrow> PublicKey" where
  "findPositionAddress client owner custody sd =
     findProgramAddressSync
       [Buf ''position'', KeyBuf owner, KeyBuf (mainPool_pubkey client), KeyBuf custody,
        Buf [side_byte sd]]
       (programId client)"

text \<open>Lookups that throw when nothing is found.\<close>

definition getCustodyByMint ::
  "(PublicKey \<Rightarrow> string) \<Rightarrow> AdrenaClient \<Rightarrow> PublicKey \<Rightarrow> js_value + CustodyExtended" where
  "getCustodyByMint toBase58 client mint =
     (case find (\<lambda>c. custody_mint c = mint) (custodies client) of
        None \<Rightarrow> Inl (JError ''Error'' (''Cannot find custody for mint '' @ toBase58 mint))
      | Some c \<Rightarrow> Inr c)"

definition getTokenBySymbol :: "AdrenaClient \<Rightarrow> string \<Rightarrow> Token option" where
  "getTokenBySymbol client symb = find (\<lambda>token. symbol token = symb) (tokens client)"

definition getStakingRewardTokenMint :: "AdrenaClient \<Rightarrow> js_value + PublicKey" where
  "getStakingRewardTokenMint client =
     (case getTokenBySymbol client ''USDC'' of
        None \<Rightarrow> Inl (JError ''Error'' ''Cannot find staking reward token mint'')
      | Some token \<Rightarrow> Inr (token_mint token))"

definition getUsdcToken :: "AdrenaClient \<Rightarrow> js_value + Token" where
  "getUsdcToken client =
     (case find (\<lambda>token. symbol token = ''USDC'') (tokens client) of
        None \<Rightarrow> Inl (JError ''Error'' ''Cannot found USDC token'')
      | Some usdcToken \<Rightarrow> Inr usdcToken)"

text \<open>
  The cache agrees with the derivation when every entry stored under the key of an
  (owner, token, side) is the address derived for it. \<^verbatim>\<open>toBase58\<close> is well behaved
  when it is injective and never prints a dash (the base-58 alphabet has none).
\<close>

definition cache_agrees :: "(PublicKey \<Rightarrow> string) \<Rightarrow> AdrenaClient \<Rightarrow> bool" where
  "cache_agrees toBase58 client =
     (\<forall>owner token sd cached.
        positionPdaCache client (positionCacheKey toBase58 owner token sd) = Some cached
        \<longrightarrow> cached = derivePositionPda client owner token sd)"

definition base58_like :: "(PublicKey \<Rightarrow> string) \<Rightarrow> bool" where
  "base58_like toBase58 = (inj toBase58 \<and> (\<forall>k. CHR ''-'' \<notin> set (toBase58 k)))"

section \<open>Borrow-fee accrual\<close>

text \<open>\<^verbatim>\<open>u128SplitToBN\<close>: the high half shifted left by 64 bits, plus the low half.\<close>

definition u128SplitToBN :: "U128Split \<Rightarrow> int" where
  "u128SplitToBN u128 = (let highShifted = high u128 * 2 ^ 64 in highShifted + low u128)"

text \<open>
  \<^verbatim>\<open>calculatePositionBorrowFee\<close>. The clock is the parameter \<open>nowMs\<close>
  (\<^verbatim>\<open>Date.now()\<close>, milliseconds); \<^verbatim>\<open>new BN(Date.now() / 1000)\<close> keeps the whole
  seconds. Inside the \<^verbatim>\<open>if\<close>, the source evaluates
  \<^verbatim>\<open>cumulativeInterest.add(newCumulativeInterest)\<close> as a statement: the sum is a
  fresh value that no variable receives, bound here to \<open>discarded\<close>, and the
  \<open>cumulativeInterest\<close> read afterwards is the one computed before the \<^verbatim>\<open>if\<close>.
\<close>

definition calculatePositionBorrowFee :: "CustodyExtended \<Rightarrow> PositionExtended \<Rightarrow> int \<Rightarrow> int" where
  "calculatePositionBorrowFee collateralCustody position nowMs =
     (let currentTime = nowMs div 1000;
          st = borrowRateState (custody_nativeObject collateralCustody);
          pos = position_nativeObject position;
          cumulativeInterest0 =
            low (cumulativeInterest st) + high (cumulativeInterest st) * 2 ^ 64;
          discarded =
            (if currentTime > lastUpdate st
             then let newCumulativeInterest =
                        bn_div ((currentTime - lastUpdate st) * currentRate st) 3600
                  in Some (cumulativeInterest0 + newCumulativeInterest)
             else None);
          cumulativeInterestSnapshot0 =
            low (cumulativeInterestSnapshot pos) + high (cumulativeInterestSnapshot pos) * 2 ^ 64;
          positionInterest =
            (if cumulativeInterest0 > cumulativeInterestSnapshot0
             then cumulativeInterest0 - cumulativeInterestSnapshot0 else 0);
          totalInterestUsd = bn_div (positionInterest * borrowSizeUsd pos) 1000000000
      in totalInterestUsd + unrealizedInterestUsd pos)"

text \<open>
  The accrual formula as the specification words it (section 4.7, \<open>borrowFee\<close>): the
  accumulator plus the projected increment, minus the snapshot, floored at zero,
  scaled by the borrow size, plus the realised figure. It differs from the
  definition above in one place: the sum with the increment is used.
\<close>

definition spec_borrowFee :: "CustodyExtended \<Rightarrow> PositionExtended \<Rightarrow> int \<Rightarrow> int" where
  "spec_borrowFee collateralCustody position nowMs =
     (let currentTime = nowMs div 1000;
          st = borrowRateState (custody_nativeObject collateralCustody);
          pos = position_nativeObject position;
          accumulated = u128SplitToBN (cumulativeInterest st);
          projected =
            (if currentTime > lastUpdate st
             then accumulated + bn_div ((currentTime - lastUpdate st) * currentRate st) 3600
             else accumulated);
          snapshot = u128SplitToBN (cumulativeInterestSnapshot pos);
          positionInterest = (if projected > snapshot then projected - snapshot else 0)
      in bn_div (positionInterest * borrowSizeUsd pos) 1000000000
           + unrealizedInterestUsd pos)"

text \<open>A custody whose rate is one unit per second, last updated at time zero, and a
  position opened at that moment with a borrow size of \<open>10\<^sup>9\<close>.\<close>

definition custody_hourly :: CustodyExtended where
  "custody_hourly =
     \<lparr> custody_pubkey = Key ''custody'', custody_mint = Key ''mint'',
       custody_nativeObject =
         \<lparr> custody_oracle = Key ''oracle'', tradeOracle = Key ''oracle'',
           borrowRateState =
             \<lparr> currentRate = 3600,
               cumulativeInterest = \<lparr> high = 0, low = 0 \<rparr>,
               lastUpdate = 0 \<rparr> \<rparr> \<rparr>"

definition position_fresh :: PositionExtended where
  "position_fresh =
     \<lparr> position_pubkey = Key ''position'',
       position_nativeObject =
         \<lparr> cumulativeInterestSnapshot = \<lparr> high = 0, low = 0 \<rparr>,
           borrowSizeUsd = 1000000000,
           unrealizedInterestUsd = 0 \<rparr> \<rparr>"

section \<open>Early-exit fee of a locked stake\<close>

record LockedStake =
  amount :: int
  lockDuration :: int
  endTime :: int

text \<open>
  \<^verbatim>\<open>calculateCappedFeeForExitEarly\<close>, with \<^verbatim>\<open>Date.now()\<close> as the parameter
  \<open>now\<close>. The source calls \<^verbatim>\<open>endTime.toNumber()\<close> first, then
  \<^verbatim>\<open>lockDuration.toNumber()\<close>.
\<close>

definition calculateCappedFeeForExitEarly :: "LockedStake \<Rightarrow> int \<Rightarrow> js_value + js_number" where
  "calculateCappedFeeForExitEarly lockedStake now =
     (case bn_toNumber (endTime lockedStake) of
        Inl e \<Rightarrow> Inl e
      | Inr endT \<Rightarrow>
        (case bn_toNumber (lockDuration lockedStake) of
           Inl e \<Rightarrow> Inl e
         | Inr dur \<Rightarrow>
             let timeElapsed = now - (endT * 1000 - dur * 1000);
                 timeRemaining = dur * 1000 - timeElapsed;
                 feeRate = js_divide (of_int timeRemaining) (of_int (dur * 1000))
             in Inr (Math_min (Math_max feeRate (Num (15 / 100))) (Num (4 / 10)))))"

text \<open>The band the fee is meant to stay in.\<close>

fun in_fee_band :: "js_number \<Rightarrow> bool" where
  "in_fee_band (Num r) = (15 / 100 \<le> r \<and> r \<le> 4 / 10)"
| "in_fee_band _ = False"

section \<open>Slippage\<close>

text \<open>
  \<^verbatim>\<open>applySlippage(nb, percentage)\<close>: the percentage is scaled by \<open>10 000\<close> into a
  \<^verbatim>\<open>BN\<close>, and the delta is \<open>nb \<times> percentageBN\<close> divided, with rounding, by
  \<open>10 000 \<times> 100\<close>.
\<close>

definition applySlippage :: "int \<Rightarrow> real \<Rightarrow> js_value + int" where
  "applySlippage nb percentage =
     (let negative = (if percentage < 0 then True else False)
      in case bn_of_number ((if negative then percentage * (- 1) else percentage) * 10000) of
           Inl e \<Rightarrow> Inl e
         | Inr percentageBN \<Rightarrow>
             let delta = bn_divRound (nb * percentageBN) (10000 * 100)
             in Inr (if negative then nb - delta else nb + delta))"

section \<open>Builders of the open-position instructions\<close>

record OpenPositionParams =
  params_price :: int
  params_collateral :: int
  params_leverage :: nat
  params_referrer :: "PublicKey option"

record MethodCall =
  method_name :: string
  method_params :: OpenPositionParams
  method_accounts :: "(string \<times> PublicKey option) list"

text \<open>
  \<^verbatim>\<open>buildOpenOrIncreasePositionWithSwapLong\<close>. The lookups run in the order of the
  source, so the first one that fails decides what is thrown; the slippage is the
  literal \<^verbatim>\<open>0.3\<close> (the product \<^verbatim>\<open>0.3 * 10_000\<close> is \<open>3000\<close> in binary64 as it is in
  exact arithmetic).
\<close>

definition buildOpenOrIncreasePositionWithSwapLong ::
  "(PublicKey \<Rightarrow> string) \<Rightarrow> AdrenaClient \<Rightarrow> PublicKey \<Rightarrow> PublicKey \<Rightarrow> int \<Rightarrow> PublicKey \<Rightarrow> int
     \<Rightarrow> nat \<Rightarrow> PublicKey option \<Rightarrow> PublicKey option \<Rightarrow> js_value + MethodCall" where
  "buildOpenOrIncreasePositionWithSwapLong toBase58 client owner mint price collateralMint
       collateralAmount leverage userProfile referrer =
     (if adrenaProgram client = None then Inl (JError ''Error'' ''adrena program not ready'')
      else
        let receivingCustody = findCustodyAddress client collateralMint in
        sum_bind (getCustodyByMint toBase58 client collateralMint) (\<lambda>receiving.
        let receivingCustodyTokenAccount = findCustodyTokenAccountAddress client collateralMint;
            collateralAccount = findATAAddressSync owner mint;
            principalCustody = findCustodyAddress client mint in
        sum_bind (getCustodyByMint toBase58 client mint) (\<lambda>principal.
        let principalCustodyTokenAccount = findCustodyTokenAccountAddress client mint;
            fundingAccount = findATAAddressSync owner collateralMint;
            position = findPositionAddress client owner principalCustody long in
        sum_bind (getStakingRewardTokenMint client) (\<lambda>stakingRewardTokenMint.
        sum_bind (getCustodyByMint toBase58 client stakingRewardTokenMint)
          (\<lambda>stakingRewardTokenCustodyAccount.
        let stakingRewardTokenCustodyTokenAccount =
              findCustodyTokenAccountAddress client stakingRewardTokenMint;
            lmStaking = getStakingPda client (lmTokenMint client);
            lpStaking = getStakingPda client (lpTokenMint client);
            lmStakingRewardTokenVault = getStakingRewardTokenVaultPda client lmStaking;
            lpStakingRewardTokenVault = getStakingRewardTokenVaultPda client lpStaking in
        sum_bind (applySlippage price (3 / 10)) (\<lambda>priceWithSlippage.
          Inr \<lparr> method_name = ''openOrIncreasePositionWithSwapLong'',
                method_params =
                  \<lparr> params_price = priceWithSlippage,
                    params_collateral = collateralAmount,
                    params_leverage = leverage,
                    params_referrer = referrer \<rparr>,
                method_accounts =
                  [(''owner'', Some owner),
                   (''payer'', Some owner),
                   (''fundingAccount'', Some fundingAccount),
                   (''collateralAccount'', Some collateralAccount),
                   (''receivingCustody'', Some receivingCustody),
                   (''receivingCustodyOracle'',
                      Some (custody_oracle (custody_nativeObject receiving))),
                   (''receivingCustodyTokenAccount'', Some receivingCustodyTokenAccount),
                   (''principalCustody'', Some principalCustody),
                   (''principalCustodyOracle'',
                      Some (custody_oracle (custody_nativeObject principal))),
                   (''principalCustodyTradeOracle'',
                      Some (tradeOracle (custody_nativeObject principal))),
                   (''principalCustodyTokenAccount'', Some principalCustodyTokenAccount),
                   (''transferAuthority'', Some (transferAuthorityAddress client)),
                   (''cortex'', Some (cortexPda client)),
                   (''lmStaking'', Some lmStaking),
                   (''lpStaking'', Some lpStaking),
                   (''pool'', Some (mainPool_pubkey client)),
                   (''position'', Some position),
                   (''stakingRewardTokenCustody'',
                      Some (custody_pubkey stakingRewardTokenCustodyAccount)),
                   (''stakingRewardTokenCustodyOracle'',
                      Some (custody_oracle
                              (custody_nativeObject stakingRewardTokenCustodyAccount))),
                   (''stakingRewardTokenCustodyTokenAccount'',
                      Some stakingRewardTokenCustodyTokenAccount),
                   (''lmStakingRewardTokenVault'', Some lmStakingRewardTokenVault),
                   (''lpStakingRewardTokenVault'', Some lpStakingRewardTokenVault),
                   (''lpTokenMint'', Some (lpTokenMint client)),
                   (''userProfile'', userProfile),
                   (''systemProgram'', Some SystemProgram_programId),
                   (''tokenProgram'', Some TOKEN_PROGRAM_ID),
                   (''adrenaProgram'', Some (programId client)),
                   (''protocolFeeRecipient'', Some (cortex_protocolFeeRecipient client))] \<rparr>))))))"

text \<open>\<^verbatim>\<open>buildOpenOrIncreasePositionWithSwapShort\<close>: the collateral custody is the one
  of USDC, and the slippage is the literal \<^verbatim>\<open>-0.3\<close>.\<close>

definition buildOpenOrIncreasePositionWithSwapShort ::
  "(PublicKey \<Rightarrow> string) \<Rightarrow> AdrenaClient \<Rightarrow> PublicKey \<Rightarrow> PublicKey \<Rightarrow> int \<Rightarrow> PublicKey \<Rightarrow> int
     \<Rightarrow> nat \<Rightarrow> PublicKey option \<Rightarrow> PublicKey option \<Rightarrow> js_value + MethodCall" where
  "buildOpenOrIncreasePositionWithSwapShort toBase58 client owner mint price collateralMint
       collateralAmount leverage userProfile referrer =
     (if adrenaProgram client = None then Inl (JError ''Error'' ''adrena program not ready'')
      else
        let receivingCustody = findCustodyAddress client collateralMint in
        sum_bind (getCustodyByMint toBase58 client collateralMint) (\<lambda>receiving.
        let receivingCustodyTokenAccount = findCustodyTokenAccountAddress client collateralMint in
        sum_bind (getUsdcToken client) (\<lambda>usdcToken.
        let instructionCollateralMint = token_mint usdcToken;
            collateralCustody = findCustodyAddress client instructionCollateralMint in
        sum_bind (getCustodyByMint toBase58 client instructionCollateralMint) (\<lambda>collateralC.
        let collateralCustodyTokenAccount =
              findCustodyTokenAccountAddress client instructionCollateralMint;
            collateralAccount = findATAAddressSync owner instructionCollateralMint;
            principalCustody = findCustodyAddress client mint in
        sum_bind (getCustodyByMint toBase58 client mint) (\<lambda>principal.
        let principalCustodyTokenAccount = findCustodyTokenAccountAddress client mint;
            fundingAccount = findATAAddressSync owner collateralMint;
            position = findPositionAddress client owner principalCustody short in
        sum_bind (getStakingRewardTokenMint client) (\<lambda>stakingRewardTokenMint.
        sum_bind (getCustodyByMint toBase58 client stakingRewardTokenMint)
          (\<lambda>stakingRewardTokenCustodyAccount.
        let stakingRewardTokenCustodyTokenAccount =
              findCustodyTokenAccountAddress client stakingRewardTokenMint;
            lmStaking = getStakingPda client (lmTokenMint client);
            lpStaking = getStakingPda client (lpTokenMint client);
            lmStakingRewardTokenVault = getStakingRewardTokenVaultPda client lmStaking;
            lpStakingRewardTokenVault = getStakingRewardTokenVaultPda client lpStaking in
        sum_bind (applySlippage price (- (3 / 10))) (\<lambda>priceWithSlippage.
          Inr \<lparr> method_name = ''openOrIncreasePositionWithSwapShort'',
                method_params =
                  \<lparr> params_price = priceWithSlippage,
                    params_collateral = collateralAmount,
                    params_leverage = leverage,
                    params_referrer = referrer \<rparr>,
                method_accounts =
                  [(''owner'', Some owner),
                   (''payer'', Some owner),
                   (''fundingAccount'', Some fundingAccount),
                   (''collateralAccount'', Some collateralAccount),
                   (''receivingCustody'', Some receivingCustody),
                   (''receivingCustodyOracle'',
                      Some (custody_oracle (custody_nativeObject receiving))),
                   (''receivingCustodyTokenAccount'', Some receivingCustodyTokenAccount),
                   (''collateralCustody'', Some collateralCustody),
                   (''collateralCustodyOracle'',
                      Some (custody_oracle (custody_nativeObject collateralC))),
                   (''collateralCustodyTokenAccount'', Some collateralCustodyTokenAccount),
                   (''principalCustody'', Some principalCustody),
                   (''principalCustodyTradeOracle'',
                      Some (tradeOracle (custody_nativeObject principal))),
                   (''principalCustodyTokenAccount'', Some principalCustodyTokenAccount),
                   (''transferAuthority'', Some (transferAuthorityAddress client)),
                   (''cortex'', Some (cortexPda client)),
                   (''lmStaking'', Some lmStaking),
                   (''lpStaking'', Some lpStaking),
                   (''pool'', Some (mainPool_pubkey client)),
                   (''position'', Some position),
                   (''stakingRewardTokenCustody'',
                      Some (custody_pubkey stakingRewardTokenCustodyAccount)),
                   (''stakingRewardTokenCustodyOracle'',
                      Some (custody_oracle
                              (custody_nativeObject stakingRewardTokenCustodyAccount))),
                   (''stakingRewardTokenCustodyTokenAccount'',
                      Some stakingRewardTokenCustodyTokenAccount),
                   (''lmStakingRewardTokenVault'', Some lmStakingRewardTokenVault),
                   (''lpStakingRewardTokenVault'', Some lpStakingRewardTokenVault),
                   (''lpTokenMint'', Some (lpTokenMint client)),
                   (''protocolFeeRecipient'', Some (cortex_protocolFeeRecipient client)),
                   (''userProfile'', userProfile),
                   (''systemProgram'', Some SystemProgram_programId),
                   (''tokenProgram'', Some TOKEN_PROGRAM_ID),
                   (''adrenaProgram'', Some (programId client))] \<rparr>))))))))"

text \<open>The price that a built call passes to the on-chain instruction; \<open>None\<close> when the
  builder has thrown.\<close>

definition passed_price :: "js_value + MethodCall \<Rightarrow> int option" where
  "passed_price built =
     (case built of Inl e \<Rightarrow> None | Inr call \<Rightarrow> Some (params_price (method_params call)))"

section \<open>Priority fee and compute budget of a draft transaction\<close>

fun DEFAULT_PRIORITY_FEES :: "PriorityFeeOption \<Rightarrow> real" where
  "DEFAULT_PRIORITY_FEES fee_medium = 100000"
| "DEFAULT_PRIORITY_FEES fee_high = 250000"
| "DEFAULT_PRIORITY_FEES fee_ultra = 500000"

definition LAMPORTS_PER_SOL :: real where
  "LAMPORTS_PER_SOL = 1000000000"

datatype instruction =
    SetComputeUnitPrice real
  | SetComputeUnitLimit real
  | ProgramInstruction nat

text \<open>
  The block of \<^verbatim>\<open>signAndExecuteTxAlternative\<close> headed ``adjust priority fee base
  on max priority fee''. \<open>computeUnitUsed\<close> is \<open>None\<close> when the simulation reports
  no \<^verbatim>\<open>unitsConsumed\<close>; the transaction's first two instructions are the price and
  the limit that the function has put in front.
\<close>

definition adjustPriorityFee ::
  "AdrenaClient \<Rightarrow> real \<Rightarrow> nat option \<Rightarrow> instruction list \<Rightarrow> instruction list" where
  "adjustPriorityFee client priorityFeeMicroLamports computeUnitUsed instructions =
     (case (computeUnitUsed, maxPriorityFee client) of
        (Some used, Some maxFee) \<Rightarrow>
          if used > 0 then
            let maxPriorityFeeLamports = maxFee * LAMPORTS_PER_SOL;
                totalPriorityFee = (priorityFeeMicroLamports * real used) / 1000000
            in if totalPriorityFee > maxPriorityFeeLamports
               then let adjustedMicroLamports =
                          \<lfloor>(maxPriorityFeeLamports * 1000000) / real used\<rfloor>
                    in instructions[0 := SetComputeUnitPrice (of_int adjustedMicroLamports)]
               else instructions
          else instructions
      | _ \<Rightarrow> instructions)"

text \<open>The block headed ``Adjust compute unit limit''.\<close>

definition adjustComputeUnitLimit ::
  "string \<Rightarrow> nat option \<Rightarrow> instruction list \<Rightarrow> instruction list" where
  "adjustComputeUnitLimit walletName computeUnitUsed instructions =
     (case computeUnitUsed of
        None \<Rightarrow> instructions
      | Some used \<Rightarrow>
          let computeUnitToUse0 = real used * (105 / 100);
              computeUnitToUse =
                (if walletName = ''Solflare'' then computeUnitToUse0 + 12000
                 else computeUnitToUse0)
          in instructions[1 := SetComputeUnitLimit computeUnitToUse])"

text \<open>The two compute-budget instructions are put in front of the draft.\<close>

definition unshiftComputeBudget :: "real \<Rightarrow> instruction list \<Rightarrow> instruction list" where
  "unshiftComputeBudget priorityFeeMicroLamports instructions =
     SetComputeUnitPrice priorityFeeMicroLamports # SetComputeUnitLimit 1400000 # instructions"

definition budgetedInstructions ::
  "AdrenaClient \<Rightarrow> string \<Rightarrow> real \<Rightarrow> nat option \<Rightarrow> instruction list \<Rightarrow> instruction list" where
  "budgetedInstructions client walletName priorityFeeMicroLamports computeUnitUsed instructions =
     adjustComputeUnitLimit walletName computeUnitUsed
       (adjustPriorityFee client priorityFeeMicroLamports computeUnitUsed
          (unshiftComputeBudget priorityFeeMicroLamports instructions))"



section \<open>Error translation\<close>

text \<open>Decimal text of a number, and \<^verbatim>\<open>Array.prototype.join\<close>.\<close>

fun nat_to_string :: "nat \<Rightarrow> string" where
  "nat_to_string n =
     (if n < 10 then [''0123456789'' ! n]
      else nat_to_string (n div 10) @ [''0123456789'' ! (n mod 10)])"

definition int_to_string :: "int \<Rightarrow> string" where
  "int_to_string i =
     (if i < 0 then CHR ''-'' # nat_to_string (nat (- i)) else nat_to_string (nat i))"

definition join :: "string \<Rightarrow> string list \<Rightarrow> string" where
  "join sep xs = (case xs of [] \<Rightarrow> [] | y # ys \<Rightarrow> y @ concat (map (\<lambda>z. sep @ z) ys))"

text \<open>\<^verbatim>\<open>String(v)\<close>.\<close>

fun js_String :: "js_value \<Rightarrow> string" where
  "js_String JUndefined = ''undefined''"
| "js_String JNull = ''null''"
| "js_String (JBool b) = (if b then ''true'' else ''false'')"
| "js_String (JNum n) = int_to_string n"
| "js_String (JStr s) = s"
| "js_String (JArr xs) =
     join '','' (map (\<lambda>x. case x of JUndefined \<Rightarrow> [] | JNull \<Rightarrow> [] | _ \<Rightarrow> js_String x) xs)"
| "js_String (JObj kvs) = ''[object Object]''"
| "js_String (JError nm message) =
     (if message = [] then nm else if nm = [] then message else nm @ '': '' @ message)"
| "js_String (JAdrena h s) = ''[object Object]''"

text \<open>
  \<^verbatim>\<open>JSON.stringify(v, null, 2)\<close>. The result is \<^verbatim>\<open>undefined\<close> (here \<open>None\<close>), not
  a string, when \<open>v\<close> is \<^verbatim>\<open>undefined\<close>; inside an array \<^verbatim>\<open>undefined\<close> prints as
  \<^verbatim>\<open>null\<close>, and a property whose value is \<^verbatim>\<open>undefined\<close> is left out.
\<close>

definition hex_digit :: "nat \<Rightarrow> char" where
  "hex_digit n = ''0123456789abcdef'' ! n"

definition json_escape_char :: "char \<Rightarrow> string" where
  "json_escape_char c =
     (if c = CHR 0x22 then [CHR 0x5C, CHR 0x22]
      else if c = CHR 0x5C then [CHR 0x5C, CHR 0x5C]
      else if c = CHR 0x0A then [CHR 0x5C, CHR ''n'']
      else if c = CHR 0x0D then [CHR 0x5C, CHR ''r'']
      else if c = CHR 0x09 then [CHR 0x5C, CHR ''t'']
      else if c = CHR 0x08 then [CHR 0x5C, CHR ''b'']
      else if c = CHR 0x0C then [CHR 0x5C, CHR ''f'']
      else if (of_char c :: nat) < 32
        then [CHR 0x5C, CHR ''u'', CHR ''0'', CHR ''0'',
              hex_digit (of_char c div 16), hex_digit (of_char c mod 16)]
      else [c])"

definition json_quote :: "string \<Rightarrow> string" where
  "json_quote s = CHR 0x22 # concat (map json_escape_char s) @ [CHR 0x22]"

definition json_indent :: "nat \<Rightarrow> string" where
  "json_indent ind = replicate ind CHR '' ''"

definition json_array :: "nat \<Rightarrow> string option list \<Rightarrow> string" where
  "json_array ind items =
     (if items = [] then ''[]''
      else ''['' @ [CHR 0x0A]
        @ join ('','' @ [CHR 0x0A])
            (map (\<lambda>x. json_indent (ind + 2) @ (case x of None \<Rightarrow> ''null'' | Some s \<Rightarrow> s))
               items)
        @ [CHR 0x0A] @ json_indent ind @ '']'')"

definition json_object :: "nat \<Rightarrow> (string \<times> string option) list \<Rightarrow> string" where
  "json_object ind props =
     (let shown = concat (map (\<lambda>(k, v). case v of None \<Rightarrow> []
                     | Some s \<Rightarrow> [json_indent (ind + 2) @ json_quote k @ '': '' @ s]) props)
      in if shown = [] then ''{}''
         else ''{'' @ [CHR 0x0A] @ join ('','' @ [CHR 0x0A]) shown
                @ [CHR 0x0A] @ json_indent ind @ ''}'')"

fun json_stringify :: "nat \<Rightarrow> js_value \<Rightarrow> string option" where
  "json_stringify ind JUndefined = None"
| "json_stringify ind JNull = Some ''null''"
| "json_stringify ind (JBool b) = Some (if b then ''true'' else ''false'')"
| "json_stringify ind (JNum n) = Some (int_to_string n)"
| "json_stringify ind (JStr s) = Some (json_quote s)"
| "json_stringify ind (JArr xs) = Some (json_array ind (map (json_stringify (ind + 2)) xs))"
| "json_stringify ind (JObj kvs) =
     Some (json_object ind (map (\<lambda>(k, v). (k, json_stringify (ind + 2) v)) kvs))"
| "json_stringify ind (JError nm message) = Some ''{}''"
| "json_stringify ind (JAdrena h s) =
     Some (json_object ind
       [(''txHash'', Some (case h of None \<Rightarrow> ''null'' | Some t \<Rightarrow> json_quote t)),
        (''errorString'', Some (json_quote s))])"

text \<open>\<^verbatim>\<open>JSON.stringify(v)\<close>, without indentation.\<close>

definition compact_array :: "string option list \<Rightarrow> string" where
  "compact_array items =
     ''['' @ join '','' (map (\<lambda>x. case x of None \<Rightarrow> ''null'' | Some s \<Rightarrow> s) items) @ '']''"

definition compact_object :: "(string \<times> string option) list \<Rightarrow> string" where
  "compact_object props =
     ''{'' @ join '',''
              (concat (map (\<lambda>(k, v). case v of None \<Rightarrow> []
                            | Some s \<Rightarrow> [json_quote k @ '':'' @ s]) props))
       @ ''}''"

fun json_compact :: "js_value \<Rightarrow> string option" where
  "json_compact JUndefined = None"
| "json_compact JNull = Some ''null''"
| "json_compact (JBool b) = Some (if b then ''true'' else ''false'')"
| "json_compact (JNum n) = Some (int_to_string n)"
| "json_compact (JStr s) = Some (json_quote s)"
| "json_compact (JArr xs) = Some (compact_array (map json_compact xs))"
| "json_compact (JObj kvs) = Some (compact_object (map (\<lambda>(k, v). (k, json_compact v)) kvs))"
| "json_compact (JError nm message) = Some ''{}''"
| "json_compact (JAdrena h s) =
     Some (compact_object
       [(''txHash'', Some (case h of None \<Rightarrow> ''null'' | Some t \<Rightarrow> json_quote t)),
        (''errorString'', Some (json_quote s))])"

text \<open>
  \<^verbatim>\<open>safeJSONStringify\<close>: \<^verbatim>\<open>JSON.stringify\<close> inside a \<^verbatim>\<open>try\<close>, with \<^verbatim>\<open>String(obj)\<close>
  in the \<^verbatim>\<open>catch\<close>. \<^verbatim>\<open>JSON.stringify\<close> throws on no value of \<^typ>\<open>js_value\<close>
  (it throws on cyclic objects and on BigInt), so the \<^verbatim>\<open>catch\<close> is not entered
  here; what the \<^verbatim>\<open>try\<close> returns is returned as it is, \<^verbatim>\<open>undefined\<close> included.
\<close>

definition safeJSONStringify :: "js_value \<Rightarrow> string option" where
  "safeJSONStringify obj = json_stringify 0 obj"

text \<open>\<^verbatim>\<open>startsWith\<close>, \<^verbatim>\<open>includes\<close>, and the leftmost match of a pattern.\<close>

fun starts_with :: "string \<Rightarrow> string \<Rightarrow> bool" where
  "starts_with [] s = True"
| "starts_with (p # ps) [] = False"
| "starts_with (p # ps) (c # cs) = (p = c \<and> starts_with ps cs)"

fun js_includes :: "string \<Rightarrow> string \<Rightarrow> bool" where
  "js_includes [] sub = (sub = [])"
| "js_includes (c # cs) sub = (starts_with sub (c # cs) \<or> js_includes cs sub)"

fun first_match :: "(string \<Rightarrow> 'a option) \<Rightarrow> string \<Rightarrow> 'a option" where
  "first_match m [] = m []"
| "first_match m (c # cs) = (case m (c # cs) of Some r \<Rightarrow> Some r | None \<Rightarrow> first_match m cs)"

definition is_digit :: "char \<Rightarrow> bool" where
  "is_digit c = (48 \<le> (of_char c :: nat) \<and> (of_char c :: nat) \<le> 57)"

definition is_letter :: "char \<Rightarrow> bool" where
  "is_letter c = ((65 \<le> (of_char c :: nat) \<and> (of_char c :: nat) \<le> 90)
                \<or> (97 \<le> (of_char c :: nat) \<and> (of_char c :: nat) \<le> 122))"

definition is_hex_digit :: "char \<Rightarrow> bool" where
  "is_hex_digit c = (is_digit c
       \<or> (97 \<le> (of_char c :: nat) \<and> (of_char c :: nat) \<le> 102)
       \<or> (65 \<le> (of_char c :: nat) \<and> (of_char c :: nat) \<le> 70))"

definition is_message_char :: "char \<Rightarrow> bool" where
  "is_message_char c = (is_letter c \<or> c = CHR '' '' \<or> c = CHR 0x27 \<or> c = CHR ''.'')"

text \<open>A literal followed by one or more characters of a class, taken greedily: the
  captured run and what follows it.\<close>

definition lit_then_class ::
  "string \<Rightarrow> (char \<Rightarrow> bool) \<Rightarrow> string \<Rightarrow> (string \<times> string) option" where
  "lit_then_class lit cls s =
     (if starts_with lit s
      then let r = drop (length lit) s; g = takeWhile cls r
           in if g = [] then None else Some (g, dropWhile cls r)
      else None)"

definition hex_value :: "char \<Rightarrow> nat" where
  "hex_value c = (let n = of_char c in
      if n \<le> 57 then n - 48 else if n \<le> 70 then n - 55 else n - 87)"

definition parseInt16 :: "string \<Rightarrow> nat" where
  "parseInt16 ds = foldl (\<lambda>acc c. acc * 16 + hex_value c) 0 ds"

definition parseInt10 :: "string \<Rightarrow> nat" where
  "parseInt10 ds = foldl (\<lambda>acc c. acc * 10 + (of_char c - 48)) 0 ds"

text \<open>
  The five regular expressions of \<^verbatim>\<open>parseTransactionError\<close>, each returning its
  capture group: \<^verbatim>\<open>/custom program error: (0x[\da-fA-F]+)/\<close> (the digits after
  \<^verbatim>\<open>0x\<close>), \<^verbatim>\<open>/"Custom": ([0-9]+)/\<close>, \<^verbatim>\<open>/Error Code: ([a-zA-Z]+)/\<close>,
  \<^verbatim>\<open>/"([a-zA-Z]+)"\n[ ]+]/\<close> and \<^verbatim>\<open>/Error Message: ([a-zA-Z '\.]+)"/\<close>. In each the
  class excludes the character that must follow the run, so the greedy run is the
  only candidate at a position.
\<close>

definition match_custom_program_error :: "string \<Rightarrow> string option" where
  "match_custom_program_error s =
     first_match
       (\<lambda>t. map_option fst (lit_then_class ''custom program error: 0x'' is_hex_digit t)) s"

definition match_Custom :: "string \<Rightarrow> string option" where
  "match_Custom s =
     first_match
       (\<lambda>t. map_option fst
          (lit_then_class (CHR 0x22 # ''Custom'' @ [CHR 0x22] @ '': '') is_digit t)) s"

definition match_Error_Code :: "string \<Rightarrow> string option" where
  "match_Error_Code s =
     first_match (\<lambda>t. map_option fst (lit_then_class ''Error Code: '' is_letter t)) s"

definition match_quoted_name :: "string \<Rightarrow> string option" where
  "match_quoted_name s =
     first_match (\<lambda>t.
        case lit_then_class [CHR 0x22] is_letter t of
          None \<Rightarrow> None
        | Some (g, r) \<Rightarrow>
            if starts_with [CHR 0x22, CHR 0x0A] r
            then let sp = drop 2 r
                 in if takeWhile (\<lambda>c. c = CHR '' '') sp \<noteq> []
                       \<and> starts_with '']'' (dropWhile (\<lambda>c. c = CHR '' '') sp)
                    then Some g else None
            else None) s"

definition match_Error_Message :: "string \<Rightarrow> string option" where
  "match_Error_Message s =
     first_match (\<lambda>t.
        case lit_then_class ''Error Message: '' is_message_char t of
          None \<Rightarrow> None
        | Some (g, r) \<Rightarrow> if starts_with [CHR 0x22] r then Some g else None) s"

record AdrenaTransactionError =
  txHash :: "string option"
  errorString :: string

fun instanceof_AdrenaTransactionError :: "js_value \<Rightarrow> AdrenaTransactionError option" where
  "instanceof_AdrenaTransactionError (JAdrena h s) = Some \<lparr> txHash = h, errorString = s \<rparr>"
| "instanceof_AdrenaTransactionError _ = None"

definition thrown_AdrenaTransactionError :: "AdrenaTransactionError \<Rightarrow> js_value" where
  "thrown_AdrenaTransactionError e = JAdrena (txHash e) (errorString e)"

definition TypeError_undefined :: js_value where
  "TypeError_undefined = JError ''TypeError'' ''Cannot read properties of undefined''"

definition TypeError_null :: js_value where
  "TypeError_null = JError ''TypeError'' ''Cannot read properties of null''"

text \<open>
  The message that \<^verbatim>\<open>parseTransactionError\<close> builds once the three codes and the
  message have been extracted; \<open>json\<close> is the text of \<^verbatim>\<open>safeJSONStringify(err)\<close>.
  Reading \<^verbatim>\<open>adrenaProgram.idl\<close> throws when the program is \<^verbatim>\<open>null\<close>.
\<close>

definition errStr_of ::
  "IdlErrorCode list option \<Rightarrow> string \<Rightarrow> nat option \<Rightarrow> nat option \<Rightarrow> string option
     \<Rightarrow> string option \<Rightarrow> js_value + string" where
  "errStr_of program json errCodeHex errCodeDecimals errName errMessage =
     (if json = CHR 0x22 # ''BlockhashNotFound'' @ [CHR 0x22] then Inr ''BlockhashNotFound''
      else if js_includes json ''InsufficientFundsForRent''
        then Inr ''Not enough SOL to pay for transaction fees and rent''
      else case program of
        None \<Rightarrow> Inl TypeError_null
      | Some idl_errors \<Rightarrow>
          let idlError = find (\<lambda>e.
                 (errName \<noteq> None \<and> errName = Some (name e))
                 \<or> (errCodeHex \<noteq> None \<and> errCodeHex = Some (code e))
                 \<or> (errCodeDecimals \<noteq> None \<and> errCodeDecimals = Some (code e))) idl_errors;
              idlMsg = (case idlError of None \<Rightarrow> None | Some e \<Rightarrow> msg e)
          in Inr
            (if idlMsg \<noteq> None \<and> idlMsg \<noteq> Some [] then the idlMsg
             else if errName \<noteq> None \<and> errMessage \<noteq> None
               then the errName @ '': '' @ the errMessage
             else if errName \<noteq> None then ''Error name: '' @ the errName
             else if errCodeHex \<noteq> None \<and> errCodeHex \<noteq> Some 0
               then ''Error code: '' @ nat_to_string (the errCodeHex)
             else if errCodeDecimals = Some 1 then ''Insufficient SOL''
             else if errCodeDecimals \<noteq> None \<and> errCodeDecimals \<noteq> Some 0
               then ''Error code: '' @ nat_to_string (the errCodeDecimals)
             else ''Unknown error''))"

text \<open>
  \<^verbatim>\<open>parseTransactionError(adrenaProgram, err)\<close>. The first use of
  \<^verbatim>\<open>safeJSONStringify(err)\<close> is \<^verbatim>\<open>safeJSONStringify(err).match(...)\<close>: reading
  \<^verbatim>\<open>match\<close> of \<^verbatim>\<open>undefined\<close> throws a \<^verbatim>\<open>TypeError\<close>.
\<close>

definition parseTransactionError ::
  "IdlErrorCode list option \<Rightarrow> js_value \<Rightarrow> js_value + AdrenaTransactionError" where
  "parseTransactionError program err =
     (case instanceof_AdrenaTransactionError err of
        Some e \<Rightarrow> Inr e
      | None \<Rightarrow>
        let errCodeHex = map_option parseInt16 (match_custom_program_error (js_String err))
        in case safeJSONStringify err of
             None \<Rightarrow> Inl TypeError_undefined
           | Some json \<Rightarrow>
               let errCodeDecimals = map_option parseInt10 (match_Custom json);
                   errName = (case match_Error_Code json of
                                Some n \<Rightarrow> Some n
                              | None \<Rightarrow> match_quoted_name json);
                   errMessage = match_Error_Message json
               in case errStr_of program json errCodeHex errCodeDecimals errName errMessage of
                    Inl thrown \<Rightarrow> Inl thrown
                  | Inr errStr \<Rightarrow> Inr \<lparr> txHash = None, errorString = errStr \<rparr>)"

section \<open>Simulation with retries\<close>

text \<open>
  What the client does to the outside world during a submission, in order: network
  calls, timers, the signer (with the instructions it is asked to sign), and the
  calls on the optional notification object.
\<close>

datatype event =
    GetLatestBlockhash
  | GetMeanPrioritizationFee
  | SimulateTransaction
  | SetTimeout nat
  | SignTransaction "instruction list"
  | SendRawTransaction
  | GetSignatureStatus
  | Sleep nat
  | CurrentStepErrored AdrenaTransactionError
  | CurrentStepSucceeded
  | SetTxHash string

record SimulatedTransactionResponse =
  sim_err :: js_value
  unitsConsumed :: "nat option"

text \<open>The reply of the node to one \<^verbatim>\<open>connection.simulateTransaction\<close>: the promise
  rejects, or it resolves to a response.\<close>

datatype simulate_reply =
    SimulateRejects js_value
  | SimulateResolves SimulatedTransactionResponse

text \<open>
  One attempt: the \<^verbatim>\<open>then\<close> handler of \<^verbatim>\<open>simulateTransactionStrongPromise\<close>. A
  response with a truthy \<^verbatim>\<open>err\<close> is translated with the readonly program and
  thrown; the left side is what reaches the \<^verbatim>\<open>catch\<close> handler.
\<close>

definition simulate_attempt ::
  "AdrenaClient \<Rightarrow> simulate_reply \<Rightarrow> js_value + SimulatedTransactionResponse" where
  "simulate_attempt client reply =
     (case reply of
        SimulateRejects e \<Rightarrow> Inl e
      | SimulateResolves result \<Rightarrow>
          if truthy (sim_err result)
          then (case parseTransactionError (readonlyAdrenaProgram client) (sim_err result) of
                  Inl thrown \<Rightarrow> Inl thrown
                | Inr adrenaError \<Rightarrow> Inl (thrown_AdrenaTransactionError adrenaError))
          else Inr result)"

text \<open>The test of the \<^verbatim>\<open>catch\<close> handler: the error text names a missing blockhash.\<close>

definition errString_of :: "js_value \<Rightarrow> string" where
  "errString_of err =
     (case instanceof_AdrenaTransactionError err of
        Some e \<Rightarrow> errorString e
      | None \<Rightarrow> js_String err)"

definition blockhash_expired :: "js_value \<Rightarrow> bool" where
  "blockhash_expired err = js_includes (errString_of err) ''BlockhashNotFound''"

text \<open>
  \<^verbatim>\<open>simulateTransactionStrongPromise(resolve, reject, args, retry)\<close>. \<open>replies k\<close>
  is the node's reply to the call made with \<^verbatim>\<open>retry = k\<close>. The result is the
  trace of effects and how the promise settles: \<open>Inl\<close> for \<^verbatim>\<open>reject\<close>, \<open>Inr\<close> for
  \<^verbatim>\<open>resolve\<close>.
\<close>

function simulateTransactionStrongPromise ::
  "AdrenaClient \<Rightarrow> (nat \<Rightarrow> simulate_reply) \<Rightarrow> nat
     \<Rightarrow> event list \<times> (js_value + SimulatedTransactionResponse)" where
  "simulateTransactionStrongPromise client replies retry =
     (if \<not> connection client then ([], Inl (JError ''Error'' ''Connection missing''))
      else case simulate_attempt client (replies retry) of
             Inr result \<Rightarrow> ([SimulateTransaction], Inr result)
           | Inl err \<Rightarrow>
               if blockhash_expired err \<and> retry < 10
               then (SimulateTransaction # SetTimeout 50
                       # fst (simulateTransactionStrongPromise client replies (retry + 1)),
                     snd (simulateTransactionStrongPromise client replies (retry + 1)))
               else ([SimulateTransaction], Inl err))"
  by pat_completeness auto
termination
  by (relation "measure (\<lambda>(client, replies, retry). 10 - retry)") auto

definition simulateTransactionStrong ::
  "AdrenaClient \<Rightarrow> (nat \<Rightarrow> simulate_reply)
     \<Rightarrow> event list \<times> (js_value + SimulatedTransactionResponse)" where
  "simulateTransactionStrong client replies = simulateTransactionStrongPromise client replies 0"

text \<open>\<^verbatim>\<open>simulateTransaction\<close>: the connection check, then the strong simulation; an
  error is logged and thrown again.\<close>

definition simulateTransaction ::
  "AdrenaClient \<Rightarrow> (nat \<Rightarrow> simulate_reply)
     \<Rightarrow> event list \<times> (js_value + SimulatedTransactionResponse)" where
  "simulateTransaction client replies =
     (if \<not> connection client then ([], Inl (JError ''Error'' ''Connection missing''))
      else simulateTransactionStrong client replies)"

text \<open>Counting what a trace holds.\<close>

definition simulations :: "event list \<Rightarrow> nat" where
  "simulations tr = length (filter (\<lambda>e. e = SimulateTransaction) tr)"

fun timeouts :: "event list \<Rightarrow> nat list" where
  "timeouts [] = []"
| "timeouts (SetTimeout d # tr) = d # timeouts tr"
| "timeouts (e # tr) = timeouts tr"

definition broadcasts :: "event list \<Rightarrow> nat" where
  "broadcasts tr = length (filter (\<lambda>e. e = SendRawTransaction) tr)"

text \<open>An attempt is transient when it fails with a missing blockhash.\<close>

definition transient :: "AdrenaClient \<Rightarrow> simulate_reply \<Rightarrow> bool" where
  "transient client reply =
     (case simulate_attempt client reply of
        Inl err \<Rightarrow> blockhash_expired err
      | Inr result \<Rightarrow> False)"

section \<open>Signing and submitting a transaction\<close>

text \<open>
  The replies of the collaborators during one submission. \<^verbatim>\<open>sendRawTransaction\<close>
  reply \<open>0\<close> answers the first broadcast and reply \<open>k + 1\<close> the re-broadcast of
  the \<open>k\<close>-th polling round; \<open>round_ms k\<close> is the time that round has taken when the
  loop measures it. \<^verbatim>\<open>getMeanPrioritizationFeeByPercentile\<close> is imported from a
  module outside the sources, so only its reply appears.
\<close>

record SignatureStatus =
  confirmations :: "nat option"
  status_err :: js_value

datatype status_reply =
    StatusRejects js_value
  | StatusResolves "SignatureStatus option"

record Network =
  getLatestBlockhash_reply :: "js_value + string"
  getMeanPrioritizationFee_reply :: "js_value + real"
  simulateTransaction_reply :: "nat \<Rightarrow> simulate_reply"
  signTransaction_reply :: "js_value + string option"
  sendRawTransaction_reply :: "nat \<Rightarrow> js_value option"
  getSignatureStatus_reply :: "nat \<Rightarrow> status_reply"
  round_ms :: "nat \<Rightarrow> nat"

text \<open>Sequencing of steps that leave a trace and may throw.\<close>

definition io_bind ::
  "event list \<times> (js_value + 'a) \<Rightarrow> ('a \<Rightarrow> event list \<times> (js_value + 'b))
     \<Rightarrow> event list \<times> (js_value + 'b)" where
  "io_bind m f =
     (case snd m of
        Inl e \<Rightarrow> (fst m, Inl e)
      | Inr a \<Rightarrow> (fst m @ fst (f a), snd (f a)))"

definition notify :: "bool \<Rightarrow> event \<Rightarrow> event list" where
  "notify notification ev = (if notification then [ev] else [])"

text \<open>The \<^verbatim>\<open>catch\<close> blocks that translate, report and throw again.\<close>

definition translate_and_throw ::
  "IdlErrorCode list option \<Rightarrow> bool \<Rightarrow> js_value \<Rightarrow> event list \<times> (js_value + 'a)" where
  "translate_and_throw program notification err =
     (case parseTransactionError program err of
        Inl thrown \<Rightarrow> ([], Inl thrown)
      | Inr adrenaError \<Rightarrow>
          (notify notification (CurrentStepErrored adrenaError),
           Inl (thrown_AdrenaTransactionError adrenaError)))"

definition translate_with_hash_and_throw ::
  "IdlErrorCode list option \<Rightarrow> bool \<Rightarrow> string \<Rightarrow> js_value \<Rightarrow> event list \<times> (js_value + 'a)" where
  "translate_with_hash_and_throw program notification txSignatureBase58 err =
     (case parseTransactionError program err of
        Inl thrown \<Rightarrow> ([], Inl thrown)
      | Inr adrenaError \<Rightarrow>
          let hashed = adrenaError \<lparr> txHash := Some txSignatureBase58 \<rparr>
          in (notify notification (CurrentStepErrored hashed),
              Inl (thrown_AdrenaTransactionError hashed)))"

text \<open>Fetching the blockhash; refreshing the priority fee, which falls back to the
  tier's default when the fetch fails.\<close>

definition fetchLatestBlockhash :: "AdrenaClient \<Rightarrow> Network \<Rightarrow> bool \<Rightarrow> event list \<times> (js_value + string)" where
  "fetchLatestBlockhash client net notification =
     (case getLatestBlockhash_reply net of
        Inr blockhash \<Rightarrow> ([GetLatestBlockhash], Inr blockhash)
      | Inl err \<Rightarrow>
          io_bind ([GetLatestBlockhash], Inr ())
            (\<lambda>u. translate_and_throw (adrenaProgram client) notification err))"

definition refreshPriorityFee :: "AdrenaClient \<Rightarrow> Network \<Rightarrow> event list \<times> (js_value + real)" where
  "refreshPriorityFee client net =
     ([GetMeanPrioritizationFee],
      Inr (case getMeanPrioritizationFee_reply net of
             Inr fee \<Rightarrow> fee
           | Inl err \<Rightarrow> DEFAULT_PRIORITY_FEES (priorityFeeOption client)))"

text \<open>
  The simulation step: \<^verbatim>\<open>simulateTransaction\<close>, then the check of the response's
  \<^verbatim>\<open>err\<close>; whatever is thrown in the \<^verbatim>\<open>try\<close> is translated, reported and thrown
  again. The value is \<open>computeUnitUsed\<close>.
\<close>

definition simulation_failed ::
  "event list \<times> (js_value + SimulatedTransactionResponse) \<Rightarrow> bool" where
  "simulation_failed r =
     (case snd r of
        Inl err \<Rightarrow> True
      | Inr simulationResult \<Rightarrow> truthy (sim_err simulationResult))"

definition simulateStep :: "AdrenaClient \<Rightarrow> Network \<Rightarrow> bool \<Rightarrow> event list \<times> (js_value + nat option)" where
  "simulateStep client net notification =
     (let r = simulateTransaction client (simulateTransaction_reply net)
      in case snd r of
           Inl err \<Rightarrow>
             io_bind (fst r, Inr ())
               (\<lambda>u. translate_and_throw (adrenaProgram client) notification err)
         | Inr simulationResult \<Rightarrow>
             if truthy (sim_err simulationResult)
             then io_bind (fst r, Inr ())
                    (\<lambda>u. translate_and_throw (adrenaProgram client) notification
                          (JError ''Error''
                             (''Transaction simulation failed: ''
                                @ (case json_compact (sim_err simulationResult) of
                                     None \<Rightarrow> ''undefined'' | Some s \<Rightarrow> s))))
             else (fst r, Inr (unitsConsumed simulationResult)))"

text \<open>Signing: a refusal becomes ``User rejected the request''; a transaction
  returned without a signature throws an untranslated \<^verbatim>\<open>Error\<close>.\<close>

definition signStep ::
  "Network \<Rightarrow> bool \<Rightarrow> instruction list \<Rightarrow> event list \<times> (js_value + string)" where
  "signStep net notification instructions =
     (case signTransaction_reply net of
        Inl err \<Rightarrow>
          (let adrenaError = \<lparr> txHash = None, errorString = ''User rejected the request'' \<rparr>
           in (SignTransaction instructions # notify notification (CurrentStepErrored adrenaError),
               Inl (thrown_AdrenaTransactionError adrenaError)))
      | Inr None \<Rightarrow>
          ([SignTransaction instructions],
           Inl (JError ''Error'' ''Transaction signature missing''))
      | Inr (Some txSignatureBase58) \<Rightarrow>
          (SignTransaction instructions # notify notification CurrentStepSucceeded,
           Inr txSignatureBase58))"

definition firstBroadcast :: "AdrenaClient \<Rightarrow> Network \<Rightarrow> bool \<Rightarrow> event list \<times> (js_value + unit)" where
  "firstBroadcast client net notification =
     (case sendRawTransaction_reply net 0 of
        None \<Rightarrow> ([SendRawTransaction], Inr ())
      | Some err \<Rightarrow>
          io_bind ([SendRawTransaction], Inr ())
            (\<lambda>u. translate_and_throw (adrenaProgram client) notification err))"

text \<open>
  The confirmation loop. \<open>elapsed\<close> is \<^verbatim>\<open>Date.now() - start\<close> at the head of the
  loop; a round that is not confirmed re-broadcasts and lasts at least
  \<^verbatim>\<open>MIN_LOOP_TIME\<close>, so the loop ends before \<^verbatim>\<open>MAX_TIMEOUT\<close> has passed twice. The
  value is \<open>txIsConfirmed\<close> with the last \<open>confirmTxRet\<close> (\<open>None\<close> is \<^verbatim>\<open>null\<close>).
\<close>

definition is_confirmed :: "SignatureStatus option option \<Rightarrow> bool" where
  "is_confirmed confirmTxRet =
     (case confirmTxRet of
        Some (Some st) \<Rightarrow>
          (case confirmations st of Some n \<Rightarrow> n \<noteq> 0 \<and> n > 10 | None \<Rightarrow> False)
      | _ \<Rightarrow> False)"

definition poll :: "Network \<Rightarrow> nat \<Rightarrow> SignatureStatus option option" where
  "poll net k =
     (case getSignatureStatus_reply net k of
        StatusRejects e \<Rightarrow> None
      | StatusResolves v \<Rightarrow> Some v)"

function confirmLoop ::
  "Network \<Rightarrow> nat \<Rightarrow> nat \<Rightarrow> SignatureStatus option option
     \<Rightarrow> event list \<times> (js_value + bool \<times> SignatureStatus option option)" where
  "confirmLoop net k elapsed confirmTxRet =
     (if elapsed < 30000
      then if is_confirmed (poll net k)
           then ([GetSignatureStatus], Inr (True, poll net k))
           else case sendRawTransaction_reply net (Suc k) of
                  Some err \<Rightarrow> ([GetSignatureStatus, SendRawTransaction], Inl err)
                | None \<Rightarrow>
                    ([GetSignatureStatus, SendRawTransaction]
                       @ (if round_ms net k < 500 then [Sleep (500 - round_ms net k)] else [])
                       @ fst (confirmLoop net (Suc k) (elapsed + max (round_ms net k) 500)
                                (poll net k)),
                     snd (confirmLoop net (Suc k) (elapsed + max (round_ms net k) 500)
                            (poll net k)))
      else ([], Inr (False, confirmTxRet)))"
  by pat_completeness auto
termination
  by (relation "measure (\<lambda>(net, k, elapsed, confirmTxRet). 30000 - elapsed)") auto

text \<open>What follows the loop inside the \<^verbatim>\<open>try\<close>, and the \<^verbatim>\<open>catch\<close> around both.\<close>

definition confirmation_failed :: "bool \<Rightarrow> SignatureStatus option option \<Rightarrow> bool" where
  "confirmation_failed txIsConfirmed confirmTxRet =
     (\<not> txIsConfirmed
      \<or> (case confirmTxRet of
            None \<Rightarrow> True
          | Some None \<Rightarrow> True
          | Some (Some st) \<Rightarrow> truthy (status_err st)))"

definition afterLoop ::
  "AdrenaClient \<Rightarrow> bool \<Rightarrow> string \<Rightarrow> bool \<times> SignatureStatus option option
     \<Rightarrow> event list \<times> (js_value + string)" where
  "afterLoop client notification txSignatureBase58 outcome =
     (if confirmation_failed (fst outcome) (snd outcome)
      then translate_with_hash_and_throw (adrenaProgram client) notification txSignatureBase58
             (case snd outcome of
                Some (Some st) \<Rightarrow> status_err st
              | _ \<Rightarrow> JStr ''Transaction not confirmed'')
      else (notify notification (SetTxHash txSignatureBase58)
              @ notify notification CurrentStepSucceeded,
            Inr txSignatureBase58))"

definition confirmStep ::
  "AdrenaClient \<Rightarrow> Network \<Rightarrow> bool \<Rightarrow> string \<Rightarrow> event list \<times> (js_value + string)" where
  "confirmStep client net notification txSignatureBase58 =
     (let tried = io_bind (confirmLoop net 0 0 None)
                    (afterLoop client notification txSignatureBase58)
      in case snd tried of
           Inr sig \<Rightarrow> tried
         | Inl err \<Rightarrow>
             io_bind (fst tried, Inr ())
               (\<lambda>u. translate_with_hash_and_throw (adrenaProgram client) notification
                       txSignatureBase58 err))"

text \<open>
  \<^verbatim>\<open>signAndExecuteTxAlternative\<close>: the draft's instructions, the wallet's name and
  whether a notification object was passed. The compute-budget instructions are put
  in front before the simulation and adjusted after it, which is what
  \<open>budgetedInstructions\<close> computes. The value is the signature in base 58; the left
  side is what the function throws.
\<close>

definition signAndExecuteTxAlternative ::
  "AdrenaClient \<Rightarrow> Network \<Rightarrow> string \<Rightarrow> bool \<Rightarrow> instruction list
     \<Rightarrow> event list \<times> (js_value + string)" where
  "signAndExecuteTxAlternative client net walletName notification transaction =
     (if \<not> (adrenaProgram client \<noteq> None \<and> connection client)
      then ([], Inl (JError ''Error'' ''adrena program not ready''))
      else
        io_bind (fetchLatestBlockhash client net notification) (\<lambda>latestBlockHash.
        io_bind (refreshPriorityFee client net) (\<lambda>priorityFeeMicroLamports.
        io_bind (simulateStep client net notification) (\<lambda>computeUnitUsed.
        io_bind (notify notification CurrentStepSucceeded, Inr ()) (\<lambda>u.
        io_bind (signStep net notification
                   (budgetedInstructions client walletName priorityFeeMicroLamports
                      computeUnitUsed transaction)) (\<lambda>txSignatureBase58.
        io_bind (firstBroadcast client net notification) (\<lambda>u.
        io_bind (notify notification (SetTxHash txSignatureBase58)
                   @ notify notification CurrentStepSucceeded, Inr ()) (\<lambda>u.
          confirmStep client net notification txSignatureBase58))))))))"

section \<open>Loading a user profile\<close>










section \<open>A concrete client\<close>

text \<open>
  A client of a pool with two custodies, SOL and USDC, whose transaction program is
  connected, with the default cap of \<open>0.0001\<close> SOL on the priority fee and an empty
  address cache. The program's error table has one entry.
\<close>

definition demo_idl :: "IdlErrorCode list" where
  "demo_idl = [\<lparr> code = 6001, name = ''MathOverflow'',
                 msg = Some ''Overflow in arithmetic operation'' \<rparr>]"

definition sol_mint :: PublicKey where
  "sol_mint = Key ''So11111111111111111111111111111111111111112''"

definition usdc_mint :: PublicKey where
  "usdc_mint = Key ''EPjFWdd5AufqSSqeM2qN1xzybapC8G4wEGGkZwyTDt1v''"

definition demo_owner :: PublicKey where
  "demo_owner = Key ''FL4KKyvANrRFsm8kRRCoUW9QJY5LixttpdFxEBEm7ufW''"

definition demo_programId :: PublicKey where
  "demo_programId = Key ''13gDzEXCdocbj8iAiqrScGo47NiSuYENGsRqi3SEAwet''"

definition demo_pool :: PublicKey where
  "demo_pool = findProgramAddressSync [Buf ''pool'', Buf ''main-pool''] demo_programId"

definition demo_custody :: "PublicKey \<Rightarrow> string \<Rightarrow> CustodyExtended" where
  "demo_custody mint feed =
     \<lparr> custody_pubkey =
         findProgramAddressSync [Buf ''custody'', KeyBuf demo_pool, KeyBuf mint] demo_programId,
       custody_mint = mint,
       custody_nativeObject =
         \<lparr> custody_oracle = Key feed, tradeOracle = Key feed,
           borrowRateState =
             \<lparr> currentRate = 0, cumulativeInterest = \<lparr> high = 0, low = 0 \<rparr>,
               lastUpdate = 0 \<rparr> \<rparr> \<rparr>"

definition sol_token :: Token where
  "sol_token =
     \<lparr> token_mint = sol_mint, symbol = ''SOL'', decimals = 9, isStable = False,
       token_custody = Some (custody_pubkey (demo_custody sol_mint ''solFeed'')) \<rparr>"

definition usdc_token :: Token where
  "usdc_token =
     \<lparr> token_mint = usdc_mint, symbol = ''USDC'', decimals = 6, isStable = True,
       token_custody = Some (custody_pubkey (demo_custody usdc_mint ''usdcFeed'')) \<rparr>"

definition demo_client :: AdrenaClient where
  "demo_client =
     \<lparr> programId = demo_programId,
       adrenaProgram = Some demo_idl,
       readonlyAdrenaProgram = Some demo_idl,
       mainPool_pubkey = demo_pool,
       custodies = [demo_custody sol_mint ''solFeed'', demo_custody usdc_mint ''usdcFeed''],
       tokens = [sol_token, usdc_token],
       cortex_protocolFeeRecipient = Key ''feeRecipient'',
       priorityFeeOption = fee_high,
       maxPriorityFee = Some (1 / 10000),
       positionPdaCache = Map.empty \<rparr>"

text \<open>A node that answers every simulation with a missing blockhash, and one that is
  unreachable.\<close>

definition always_expired :: "nat \<Rightarrow> simulate_reply" where
  "always_expired k =
     SimulateResolves \<lparr> sim_err = JStr ''BlockhashNotFound'', unitsConsumed = None \<rparr>"

definition unreachable_net :: Network where
  "unreachable_net =
     \<lparr> getLatestBlockhash_reply = Inr ''blockhash'',
       getMeanPrioritizationFee_reply = Inr 250000,
       simulateTransaction_reply = (\<lambda>k. SimulateRejects (JError ''Error'' ''fetch failed'')),
       signTransaction_reply = Inr (Some ''signature''),
       sendRawTransaction_reply = (\<lambda>k. None),
       getSignatureStatus_reply =
         (\<lambda>k. StatusResolves (Some \<lparr> confirmations = Some 11, status_err = JNull \<rparr>)),
       round_ms = (\<lambda>k. 100) \<rparr>"

text \<open>A stake whose lock lasts no time and ends at the moment of the call; a profile
  account created at time \<open>1\<close>.\<close>

definition stake_no_lock :: LockedStake where
  "stake_no_lock = \<lparr> amount = 1000000, lockDuration = 0, endTime = 1700000000 \<rparr>"

definition stake_half_way :: LockedStake where
  "stake_half_way = \<lparr> amount = 1000000, lockDuration = 1000, endTime = 1700000000 \<rparr>"



text \<open>A rendering of addresses for the concrete runs: a given key prints as its text.
  It only reaches error messages there.\<close>

fun demo_toBase58 :: "PublicKey \<Rightarrow> string" where
  "demo_toBase58 (Key s) = s"
| "demo_toBase58 (Pda seeds program) = ''DerivedAddress''"

text \<open>A node that simulates the draft at \<open>200 000\<close> units, accepts the broadcast and
  reports eleven confirmations at the first poll.\<close>

definition healthy_net :: Network where
  "healthy_net =
     \<lparr> getLatestBlockhash_reply = Inr ''blockhash'',
       getMeanPrioritizationFee_reply = Inr 250000,
       simulateTransaction_reply =
         (\<lambda>k. SimulateResolves \<lparr> sim_err = JNull, unitsConsumed = Some 200000 \<rparr>),
       signTransaction_reply = Inr (Some ''signature''),
       sendRawTransaction_reply = (\<lambda>k. None),
       getSignatureStatus_reply =
         (\<lambda>k. StatusResolves (Some \<lparr> confirmations = Some 11, status_err = JNull \<rparr>)),
       round_ms = (\<lambda>k. 100) \<rparr>"

section \<open>Theorems: borrow fee\<close>

lemma calculatePositionBorrowFee_ignores_clock:
  "calculatePositionBorrowFee c p t = calculatePositionBorrowFee c p t'"
  by (simp add: calculatePositionBorrowFee_def Let_def)

text \<open>
  Claim C1. The borrow fee is meant to contain the increment projected since the
  custody's last update. One second after the update of \<open>custody_hourly\<close> the
  specified formula charges one unit to \<open>position_fresh\<close>; the client's function
  returns zero, because the sum with the increment is dropped.
\<close>

theorem calculatePositionBorrowFee_drops_increment:
  "calculatePositionBorrowFee custody_hourly position_fresh 1000 = 0
   \<and> spec_borrowFee custody_hourly position_fresh 1000 = 1"
  by (simp add: calculatePositionBorrowFee_def spec_borrowFee_def u128SplitToBN_def
      custody_hourly_def position_fresh_def bn_div_def Let_def)

section \<open>Theorems: conversions between human and native amounts\<close>

lemma binary_exponent_step:
  "0 < n \<Longrightarrow> binary_exponent n x e =
     (if 2 \<le> x then binary_exponent (n - 1) (x / 2) (e + 1)
      else if x < 1 then binary_exponent (n - 1) (x * 2) (e - 1)
      else e)"
  by (cases n) simp_all

lemma binary64_zero [simp]: "binary64 0 = 0"
  by (simp add: binary64_def)

lemmas binary64_eval =
  binary64_def binary_exponent_step round_half_even_def Let_def power_int_minus

lemma literal_029: "binary64 (29 / 100) = 5224175567749775 / 18014398509481984"
  by (simp add: binary64_eval)

lemma literal_03: "binary64 (3 / 10) = 5404319552844595 / 18014398509481984"
  by (simp add: binary64_eval)

lemma product_029:
  "binary64 (binary64 (29 / 100) * binary64 (10 ^ 2)) = 29 - 1 / 2 ^ 48"
  by (simp add: binary64_eval)

lemma product_03: "binary64 (binary64 (3 / 10) * binary64 (10 ^ 1)) = 3"
  by (simp add: binary64_eval)

text \<open>
  Claim C4. \<^verbatim>\<open>uiToNative\<close> is meant to compute \<open>floor(v \<times> 10\<^sup>d)\<close> exactly, so that
  the round trip through \<^verbatim>\<open>nativeToUi\<close> truncates \<open>v\<close> to \<open>d\<close> digits and never rounds
  up. For the literal \<^verbatim>\<open>0.29\<close> and two decimals the product is \<open>29 - 2\<^sup>-\<^sup>4\<^sup>8\<close>, so
  the function returns 28 where \<open>0.29 \<times> 100\<close> is 29, and the way back gives the
  number \<^verbatim>\<open>0.28\<close>. For the literal \<^verbatim>\<open>0.3\<close> and one decimal the product rounds to 3,
  so the function returns 3, although the number that \<^verbatim>\<open>0.3\<close> denotes is below
  three tenths and the floor of its tenfold is 2: a rounding up.
\<close>

theorem uiToNative_not_the_exact_floor:
  "uiToNative (binary64 (29 / 100)) 2 = Inr 28
   \<and> \<lfloor>(29 / 100 :: real) * 10 ^ 2\<rfloor> = 29
   \<and> nativeToUi 28 2 = binary64 (28 / 100)
   \<and> binary64 (28 / 100) < binary64 (29 / 100)
   \<and> uiToNative (binary64 (3 / 10)) 1 = Inr 3
   \<and> \<lfloor>binary64 (3 / 10) * 10 ^ 1\<rfloor> = 2"
proof -
  have long_side: "uiToNative (binary64 (29 / 100)) 2 = Inr 28"
    unfolding uiToNative_def product_029 by simp
  have decimal_floor: "\<lfloor>(29 / 100 :: real) * 10 ^ 2\<rfloor> = 29"
    by simp
  have round_trip: "nativeToUi 28 2 = binary64 (28 / 100)"
    by (simp add: nativeToUi_def)
  have apart: "binary64 (28 / 100) < binary64 (29 / 100)"
    by (simp add: binary64_eval)
  have up: "uiToNative (binary64 (3 / 10)) 1 = Inr 3"
    unfolding uiToNative_def product_03 by simp
  have below: "\<lfloor>binary64 (3 / 10) * 10 ^ 1\<rfloor> = 2"
    unfolding literal_03 by simp
  show ?thesis
    using long_side decimal_floor round_trip apart up below by blast
qed

section \<open>Theorems: priority fee and compute budget\<close>






section \<open>Theorems: early-exit fee\<close>

lemma Math_clamp_band:
  "x \<noteq> NaN \<Longrightarrow> in_fee_band (Math_min (Math_max x (Num (15 / 100))) (Num (4 / 10)))"
  by (cases x) auto

text \<open>Whenever the function returns, and unless the lock lasts no time and ends at
  the very millisecond of the call, the fee is in the band.\<close>

lemma calculateCappedFeeForExitEarly_band:
  assumes "calculateCappedFeeForExitEarly lockedStake now = Inr r"
    and "lockDuration lockedStake \<noteq> 0 \<or> now \<noteq> endTime lockedStake * 1000"
  shows "in_fee_band r"
proof -
  from assms(1) obtain endT dur where
    e: "bn_toNumber (endTime lockedStake) = Inr endT" and
    d: "bn_toNumber (lockDuration lockedStake) = Inr dur" and
    r: "r = Math_min (Math_max
             (js_divide (of_int (dur * 1000 - (now - (endT * 1000 - dur * 1000))))
                (of_int (dur * 1000))) (Num (15 / 100))) (Num (4 / 10))"
    by (auto simp: calculateCappedFeeForExitEarly_def Let_def split: sum.splits)
  from e d have eq: "endT = endTime lockedStake" "dur = lockDuration lockedStake"
    by (auto simp: bn_toNumber_def split: if_splits)
  have "js_divide (of_int (dur * 1000 - (now - (endT * 1000 - dur * 1000))))
                (of_int (dur * 1000)) \<noteq> NaN"
    using assms(2) eq by (auto simp: js_divide_def)
  then show ?thesis unfolding r by (rule Math_clamp_band)
qed

text \<open>
  Claim C5. The fee is meant to lie in \<open>[0.15, 0.40]\<close> for every stake, a lock
  duration of zero included. For \<open>stake_no_lock\<close>, asked about at the millisecond its
  lock ends, the rate is \<open>0 / 0\<close>: the function returns NaN, which the two caps let
  through.
\<close>

theorem calculateCappedFeeForExitEarly_NaN:
  "calculateCappedFeeForExitEarly stake_no_lock 1700000000000 = Inr NaN
   \<and> \<not> in_fee_band NaN"
  by (simp add: calculateCappedFeeForExitEarly_def stake_no_lock_def bn_toNumber_def
      js_divide_def Let_def)

section \<open>Theorems: slippage of the open-position builders\<close>

lemma applySlippage_plus:
  "applySlippage price (3 / 10) = Inr (price + bn_divRound (price * 3000) 1000000)"
  by (simp add: applySlippage_def bn_of_number_def Let_def)

lemma applySlippage_minus:
  "applySlippage price (- (3 / 10)) = Inr (price - bn_divRound (price * 3000) 1000000)"
  by (simp add: applySlippage_def bn_of_number_def Let_def)

lemma long_builder_price:
  assumes "buildOpenOrIncreasePositionWithSwapLong toBase58 client owner mint price
             collateralMint collateralAmount leverage userProfile referrer = Inr call"
  shows "params_price (method_params call) = price + bn_divRound (price * 3000) 1000000"
  using assms
  by (auto simp: buildOpenOrIncreasePositionWithSwapLong_def sum_bind_def Let_def
      applySlippage_plus split: if_splits sum.splits)

lemma short_builder_price:
  assumes "buildOpenOrIncreasePositionWithSwapShort toBase58 client owner mint price
             collateralMint collateralAmount leverage userProfile referrer = Inr call"
  shows "params_price (method_params call) = price - bn_divRound (price * 3000) 1000000"
  using assms
  by (auto simp: buildOpenOrIncreasePositionWithSwapShort_def sum_bind_def Let_def
      applySlippage_minus split: if_splits sum.splits)

text \<open>
  Claim C6, as amended. Whatever the price and the other arguments, a long-open
  builder that returns passes the price plus its delta, and a short-open builder that
  returns passes the price minus its delta, where the delta is the price times
  \<open>3 000\<close> divided, with rounding, by \<open>1 000 000\<close> (0.3 percent); the builders have no
  parameter for the percentage or its sign.
\<close>

theorem open_builders_fixed_slippage:
  "passed_price (buildOpenOrIncreasePositionWithSwapLong toBase58 client owner mint price
       collateralMint collateralAmount leverage userProfile referrer)
     \<in> {None, Some (price + bn_divRound (price * 3000) (10000 * 100))}
   \<and> passed_price (buildOpenOrIncreasePositionWithSwapShort toBase58 client owner mint price
       collateralMint collateralAmount leverage userProfile referrer)
     \<in> {None, Some (price - bn_divRound (price * 3000) (10000 * 100))}"
  by (auto simp: passed_price_def long_builder_price short_builder_price split: sum.splits)

lemma demo_getCustodyByMint_sol:
  "getCustodyByMint toBase58 demo_client sol_mint = Inr (demo_custody sol_mint ''solFeed'')"
  by (simp add: getCustodyByMint_def demo_client_def demo_custody_def sol_mint_def usdc_mint_def)

lemma demo_getCustodyByMint_usdc:
  "getCustodyByMint toBase58 demo_client usdc_mint = Inr (demo_custody usdc_mint ''usdcFeed'')"
  by (simp add: getCustodyByMint_def demo_client_def demo_custody_def sol_mint_def usdc_mint_def)

lemma demo_usdc:
  "getUsdcToken demo_client = Inr usdc_token"
  "getStakingRewardTokenMint demo_client = Inr usdc_mint"
  by (simp_all add: getUsdcToken_def getStakingRewardTokenMint_def getTokenBySymbol_def
      demo_client_def sol_token_def usdc_token_def)

lemma demo_program: "adrenaProgram demo_client = Some demo_idl"
  by (simp add: demo_client_def)

lemma demo_builders_return:
  "passed_price (buildOpenOrIncreasePositionWithSwapLong demo_toBase58 demo_client demo_owner
       sol_mint 1000 usdc_mint 5000000 50000 None None) \<noteq> None
   \<and> passed_price (buildOpenOrIncreasePositionWithSwapShort demo_toBase58 demo_client demo_owner
       sol_mint 1000 usdc_mint 5000000 50000 None None) \<noteq> None"
  by (simp add: passed_price_def buildOpenOrIncreasePositionWithSwapLong_def
      buildOpenOrIncreasePositionWithSwapShort_def sum_bind_def Let_def
      demo_getCustodyByMint_sol demo_getCustodyByMint_usdc demo_usdc demo_program
      applySlippage_plus applySlippage_minus usdc_token_def)

text \<open>On \<open>demo_client\<close> both builders return, so the prices they pass are the ones
  of the theorem.\<close>

theorem open_builders_fixed_slippage_witness:
  "passed_price (buildOpenOrIncreasePositionWithSwapLong demo_toBase58 demo_client demo_owner
       sol_mint 1000 usdc_mint 5000000 50000 None None)
     = Some (1000 + bn_divRound (1000 * 3000) (10000 * 100))
   \<and> passed_price (buildOpenOrIncreasePositionWithSwapShort demo_toBase58 demo_client demo_owner
       sol_mint 1000 usdc_mint 5000000 50000 None None)
     = Some (1000 - bn_divRound (1000 * 3000) (10000 * 100))"
  using open_builders_fixed_slippage
          [of demo_toBase58 demo_client demo_owner sol_mint 1000 usdc_mint 5000000 50000
              None None]
    demo_builders_return
  by auto

text \<open>
  The claim as stated fails on its formula for the delta: at a price of \<open>1000\<close> both
  builders return, the long one passes \<open>1003\<close> and the short one \<open>997\<close>, while the
  price times \<open>30 000\<close> over \<open>1 000 000\<close> would move the price by \<open>30\<close>.
\<close>

theorem open_builders_delta_is_not_three_percent:
  "passed_price (buildOpenOrIncreasePositionWithSwapLong demo_toBase58 demo_client demo_owner
       sol_mint 1000 usdc_mint 5000000 50000 None None) = Some 1003
   \<and> 1000 + bn_divRound (1000 * 30000) 1000000 = 1030
   \<and> passed_price (buildOpenOrIncreasePositionWithSwapShort demo_toBase58 demo_client demo_owner
       sol_mint 1000 usdc_mint 5000000 50000 None None) = Some 997
   \<and> 1000 - bn_divRound (1000 * 30000) 1000000 = 970"
  by (simp add: passed_price_def buildOpenOrIncreasePositionWithSwapLong_def
      buildOpenOrIncreasePositionWithSwapShort_def sum_bind_def Let_def
      demo_getCustodyByMint_sol demo_getCustodyByMint_usdc demo_usdc demo_program
      applySlippage_plus applySlippage_minus bn_divRound_def bn_div_def usdc_token_def)

section \<open>Theorems: error translation\<close>

lemma json_stringify_None: "json_stringify ind v = None \<longleftrightarrow> v = JUndefined"
  by (cases v) simp_all

text \<open>An error that is already translated is returned as it is.\<close>

lemma parseTransactionError_passes_through:
  "parseTransactionError program (JAdrena h s) = Inr \<lparr> txHash = h, errorString = s \<rparr>"
  by (simp add: parseTransactionError_def)

lemma errStr_of_program:
  "\<exists>s. errStr_of (Some idl) json hex dec nm message = Inr s"
  by (simp add: errStr_of_def Let_def)

text \<open>Any other value but \<^verbatim>\<open>undefined\<close> is translated, with a program at hand, into an
  error without a transaction hash.\<close>

lemma parseTransactionError_translates:
  assumes "err \<noteq> JUndefined" and "instanceof_AdrenaTransactionError err = None"
  shows "\<exists>s. parseTransactionError (Some idl) err = Inr \<lparr> txHash = None, errorString = s \<rparr>"
proof -
  obtain json where j: "safeJSONStringify err = Some json"
    using assms(1) json_stringify_None[of 0 err] by (auto simp: safeJSONStringify_def)
  obtain s where
    "errStr_of (Some idl) json
       (map_option parseInt16 (match_custom_program_error (js_String err)))
       (map_option parseInt10 (match_Custom json))
       (case match_Error_Code json of Some n \<Rightarrow> Some n | None \<Rightarrow> match_quoted_name json)
       (match_Error_Message json) = Inr s"
    using errStr_of_program by blast
  then show ?thesis
    using j assms(2) by (simp add: parseTransactionError_def Let_def)
qed

lemma parseTransactionError_blockhash:
  "parseTransactionError program (JStr ''BlockhashNotFound'')
     = Inr \<lparr> txHash = None, errorString = ''BlockhashNotFound'' \<rparr>"
  by (simp add: parseTransactionError_def safeJSONStringify_def json_quote_def
      json_escape_char_def errStr_of_def Let_def)

text \<open>
  Claim C8. The translation is meant to return an \<^verbatim>\<open>AdrenaTransactionError\<close> for
  every input and never to throw. For the input \<^verbatim>\<open>undefined\<close>,
  \<^verbatim>\<open>safeJSONStringify\<close> returns \<^verbatim>\<open>undefined\<close> instead of a string, and calling
  \<^verbatim>\<open>match\<close> on it throws a \<^verbatim>\<open>TypeError\<close>.
\<close>

theorem parseTransactionError_throws_on_undefined:
  "parseTransactionError (Some demo_idl) JUndefined = Inl TypeError_undefined"
  by (simp add: parseTransactionError_def safeJSONStringify_def)

section \<open>Theorems: simulation with retries\<close>

declare simulateTransactionStrongPromise.simps [simp del]
declare confirmLoop.simps [simp del]

lemma strong_resolves:
  assumes "connection client" and "simulate_attempt client (replies retry) = Inr result"
  shows "simulateTransactionStrongPromise client replies retry = ([SimulateTransaction], Inr result)"
  using assms by (subst simulateTransactionStrongPromise.simps) simp

lemma strong_retries:
  assumes "connection client" and "simulate_attempt client (replies retry) = Inl err"
    and "blockhash_expired err" and "retry < 10"
  shows "simulateTransactionStrongPromise client replies retry =
           (SimulateTransaction # SetTimeout 50
              # fst (simulateTransactionStrongPromise client replies (retry + 1)),
            snd (simulateTransactionStrongPromise client replies (retry + 1)))"
  using assms by (subst simulateTransactionStrongPromise.simps) simp

lemma strong_rejects:
  assumes "connection client" and "simulate_attempt client (replies retry) = Inl err"
    and "\<not> (blockhash_expired err \<and> retry < 10)"
  shows "simulateTransactionStrongPromise client replies retry = ([SimulateTransaction], Inl err)"
  using assms by (subst simulateTransactionStrongPromise.simps) auto

lemma transient_iff:
  "transient client reply \<longleftrightarrow>
     (\<exists>err. simulate_attempt client reply = Inl err \<and> blockhash_expired err)"
  by (auto simp: transient_def split: sum.splits)

lemma strong_trace_shape:
  assumes "connection client"
  shows "simulations (fst (simulateTransactionStrongPromise client replies retry)) \<le> Suc (10 - retry)
       \<and> 1 \<le> simulations (fst (simulateTransactionStrongPromise client replies retry))
       \<and> timeouts (fst (simulateTransactionStrongPromise client replies retry))
           = replicate (simulations (fst (simulateTransactionStrongPromise client replies retry)) - 1) 50
       \<and> broadcasts (fst (simulateTransactionStrongPromise client replies retry)) = 0"
  using assms
proof (induction client replies retry rule: simulateTransactionStrongPromise.induct)
  case (1 client replies retry)
  show ?case
  proof (cases "simulate_attempt client (replies retry)")
    case (Inr result)
    then show ?thesis
      using "1.prems" by (simp add: strong_resolves simulations_def broadcasts_def)
  next
    case (Inl err)
    show ?thesis
    proof (cases "blockhash_expired err \<and> retry < 10")
      case False
      then show ?thesis
        using "1.prems" Inl by (simp add: strong_rejects simulations_def broadcasts_def)
    next
      case True
      with "1.IH"[OF _ Inl] "1.prems"
      have ih: "simulations (fst (simulateTransactionStrongPromise client replies (retry + 1)))
                  \<le> Suc (10 - (retry + 1))"
        "1 \<le> simulations (fst (simulateTransactionStrongPromise client replies (retry + 1)))"
        "timeouts (fst (simulateTransactionStrongPromise client replies (retry + 1)))
           = replicate (simulations (fst (simulateTransactionStrongPromise client replies (retry + 1))) - 1) 50"
        "broadcasts (fst (simulateTransactionStrongPromise client replies (retry + 1))) = 0"
        by auto
      define n where "n = simulations (fst (simulateTransactionStrongPromise client replies (retry + 1)))"
      have eq: "simulateTransactionStrongPromise client replies retry =
           (SimulateTransaction # SetTimeout 50
              # fst (simulateTransactionStrongPromise client replies (retry + 1)),
            snd (simulateTransactionStrongPromise client replies (retry + 1)))"
        using strong_retries[of client replies retry err] "1.prems" Inl True by simp
      have sims: "simulations (fst (simulateTransactionStrongPromise client replies retry)) = Suc n"
        by (simp add: eq simulations_def n_def)
      have "replicate n (50::nat) = 50 # replicate (n - 1) 50"
        using ih(2) by (cases n) (simp_all add: n_def)
      then have touts: "timeouts (fst (simulateTransactionStrongPromise client replies retry))
                       = replicate n 50"
        using ih(3) by (simp add: eq n_def)
      have quiet: "broadcasts (fst (simulateTransactionStrongPromise client replies retry)) = 0"
        using ih(4) by (simp add: eq broadcasts_def)
      have bound: "Suc n \<le> Suc (10 - retry)"
        using ih(1) True unfolding n_def by arith
      show ?thesis
        using sims touts bound quiet by simp
    qed
  qed
qed

text \<open>The trace of a call: simulations separated by delays of 50 ms, at most ten of
  them.\<close>

lemma strong_trace_exact:
  assumes "connection client"
  shows "\<exists>n\<le>10 - retry.
           fst (simulateTransactionStrongPromise client replies retry)
             = concat (replicate n [SimulateTransaction, SetTimeout 50]) @ [SimulateTransaction]"
  using assms
proof (induction client replies retry rule: simulateTransactionStrongPromise.induct)
  case (1 client replies retry)
  show ?case
  proof (cases "simulate_attempt client (replies retry)")
    case (Inr result)
    then have "fst (simulateTransactionStrongPromise client replies retry)
                 = concat (replicate 0 [SimulateTransaction, SetTimeout 50]) @ [SimulateTransaction]"
      using "1.prems" by (simp add: strong_resolves)
    then show ?thesis by blast
  next
    case (Inl err)
    show ?thesis
    proof (cases "blockhash_expired err \<and> retry < 10")
      case False
      then have "fst (simulateTransactionStrongPromise client replies retry)
                 = concat (replicate 0 [SimulateTransaction, SetTimeout 50]) @ [SimulateTransaction]"
        using "1.prems" Inl strong_rejects[of client replies retry err] by simp
      then show ?thesis by blast
    next
      case True
      then obtain n where n: "n \<le> 10 - (retry + 1)"
        "fst (simulateTransactionStrongPromise client replies (retry + 1))
           = concat (replicate n [SimulateTransaction, SetTimeout 50]) @ [SimulateTransaction]"
        using "1.IH"[OF _ Inl] "1.prems" by auto
      have "fst (simulateTransactionStrongPromise client replies retry)
              = concat (replicate (Suc n) [SimulateTransaction, SetTimeout 50])
                  @ [SimulateTransaction]"
        using strong_retries[of client replies retry err] "1.prems" Inl True n(2) by simp
      moreover have "Suc n \<le> 10 - retry"
        using n(1) True by arith
      ultimately show ?thesis by blast
    qed
  qed
qed

text \<open>A promise that resolves carries a response without an error.\<close>

lemma strong_resolves_clean:
  assumes "snd (simulateTransactionStrongPromise client replies retry) = Inr result"
  shows "\<not> truthy (sim_err result)"
  using assms
proof (induction client replies retry rule: simulateTransactionStrongPromise.induct)
  case (1 client replies retry)
  have conn: "connection client"
    using "1.prems" by (subst (asm) simulateTransactionStrongPromise.simps) (auto split: if_splits)
  show ?case
  proof (cases "simulate_attempt client (replies retry)")
    case (Inr r)
    then have "result = r"
      using "1.prems" conn by (simp add: strong_resolves)
    moreover have "\<not> truthy (sim_err r)"
      using Inr by (auto simp: simulate_attempt_def split: simulate_reply.splits if_splits sum.splits)
    ultimately show ?thesis by simp
  next
    case (Inl err)
    show ?thesis
    proof (cases "blockhash_expired err \<and> retry < 10")
      case True
      then have "snd (simulateTransactionStrongPromise client replies (retry + 1)) = Inr result"
        using "1.prems" strong_retries[of client replies retry err] conn Inl by simp
      then show ?thesis
        using "1.IH"[OF _ Inl] conn True by simp
    next
      case False
      then show ?thesis
        using "1.prems" strong_rejects[of client replies retry err] conn Inl by simp
    qed
  qed
qed

lemma strong_exhausted:
  assumes "connection client" and "retry \<le> 10"
    and "\<forall>k. retry \<le> k \<and> k \<le> 10 \<longrightarrow> transient client (replies k)"
  shows "snd (simulateTransactionStrongPromise client replies retry)
           = simulate_attempt client (replies 10)
       \<and> simulations (fst (simulateTransactionStrongPromise client replies retry)) = 11 - retry"
  using assms
proof (induction client replies retry rule: simulateTransactionStrongPromise.induct)
  case (1 client replies retry)
  from "1.prems" have "transient client (replies retry)" by simp
  then obtain err where err: "simulate_attempt client (replies retry) = Inl err"
    "blockhash_expired err" by (auto simp: transient_iff)
  show ?case
  proof (cases "retry < 10")
    case True
    have "snd (simulateTransactionStrongPromise client replies (retry + 1))
            = simulate_attempt client (replies 10)
        \<and> simulations (fst (simulateTransactionStrongPromise client replies (retry + 1)))
            = 11 - (retry + 1)"
      using "1.IH"[OF _ err(1)] "1.prems" True err(2) by auto
    then show ?thesis
      using strong_retries[of client replies retry err] "1.prems"(1) err True
      by (simp add: simulations_def)
  next
    case False
    with "1.prems" have "retry = 10" by simp
    then show ?thesis
      using strong_rejects[of client replies retry err] "1.prems"(1) err(1)
      by (simp add: simulations_def)
  qed
qed

lemma strong_settles_at:
  assumes "connection client" and "retry \<le> k" and "k \<le> 10"
    and "\<forall>j. retry \<le> j \<and> j < k \<longrightarrow> transient client (replies j)"
    and "\<not> transient client (replies k)"
  shows "snd (simulateTransactionStrongPromise client replies retry)
           = simulate_attempt client (replies k)
       \<and> simulations (fst (simulateTransactionStrongPromise client replies retry))
           = Suc (k - retry)"
  using assms
proof (induction client replies retry rule: simulateTransactionStrongPromise.induct)
  case (1 client replies retry)
  show ?case
  proof (cases "retry = k")
    case True
    show ?thesis
    proof (cases "simulate_attempt client (replies k)")
      case (Inr result)
      then show ?thesis
        using True "1.prems"(1) by (simp add: strong_resolves simulations_def)
    next
      case (Inl err)
      with "1.prems"(5) have "\<not> blockhash_expired err" by (auto simp: transient_iff)
      then show ?thesis
        using True Inl strong_rejects[of client replies k err] "1.prems"(1)
        by (simp add: simulations_def)
    qed
  next
    case False
    with "1.prems" have lt: "retry < k" "retry < 10" by simp_all
    with "1.prems" have "transient client (replies retry)" by simp
    then obtain err where err: "simulate_attempt client (replies retry) = Inl err"
      "blockhash_expired err" by (auto simp: transient_iff)
    have "snd (simulateTransactionStrongPromise client replies (retry + 1))
            = simulate_attempt client (replies k)
        \<and> simulations (fst (simulateTransactionStrongPromise client replies (retry + 1)))
            = Suc (k - (retry + 1))"
      using "1.IH"[OF _ err(1)] "1.prems" lt err(2) by auto
    then show ?thesis
      using strong_retries[of client replies retry err] "1.prems"(1) err lt
      by (simp add: simulations_def)
  qed
qed

text \<open>
  Claim C7. With a connection, the trace is a simulation, then at most ten times a
  delay of 50 ms followed by a simulation: at most eleven calls in all. When all
  eleven attempts fail with a missing blockhash, the promise is rejected with the
  error of the last one; and the first attempt that does not fail with a missing
  blockhash settles the promise, by resolving it when the attempt succeeded and by
  rejecting it otherwise. The function is total: the recursion ends.
\<close>

theorem simulateTransactionStrongPromise_bounded_retries:
  assumes "connection client"
  shows "(\<exists>n\<le>10. fst (simulateTransactionStrongPromise client replies 0)
                     = concat (replicate n [SimulateTransaction, SetTimeout 50])
                         @ [SimulateTransaction])
       \<and> simulations (fst (simulateTransactionStrongPromise client replies 0)) \<le> 11
       \<and> length (timeouts (fst (simulateTransactionStrongPromise client replies 0))) \<le> 10
       \<and> timeouts (fst (simulateTransactionStrongPromise client replies 0))
           = replicate (simulations (fst (simulateTransactionStrongPromise client replies 0)) - 1) 50
       \<and> ((\<forall>k\<le>10. transient client (replies k)) \<longrightarrow>
             isl (snd (simulateTransactionStrongPromise client replies 0))
           \<and> snd (simulateTransactionStrongPromise client replies 0)
               = simulate_attempt client (replies 10)
           \<and> simulations (fst (simulateTransactionStrongPromise client replies 0)) = 11)
       \<and> (\<forall>k\<le>10. (\<forall>j<k. transient client (replies j)) \<and> \<not> transient client (replies k) \<longrightarrow>
             snd (simulateTransactionStrongPromise client replies 0)
               = simulate_attempt client (replies k)
           \<and> simulations (fst (simulateTransactionStrongPromise client replies 0)) = k + 1)"
proof -
  note shape = strong_trace_shape[OF assms, of replies 0]
  have a: "simulations (fst (simulateTransactionStrongPromise client replies 0)) \<le> 11"
    using shape by simp
  have b: "timeouts (fst (simulateTransactionStrongPromise client replies 0))
           = replicate (simulations (fst (simulateTransactionStrongPromise client replies 0)) - 1) 50"
    using shape by simp
  have c: "length (timeouts (fst (simulateTransactionStrongPromise client replies 0))) \<le> 10"
    using a by (simp add: b)
  have d: "(\<forall>k\<le>10. transient client (replies k)) \<longrightarrow>
             isl (snd (simulateTransactionStrongPromise client replies 0))
           \<and> snd (simulateTransactionStrongPromise client replies 0)
               = simulate_attempt client (replies 10)
           \<and> simulations (fst (simulateTransactionStrongPromise client replies 0)) = 11"
  proof
    assume all: "\<forall>k\<le>10. transient client (replies k)"
    then have "transient client (replies 10)" by simp
    then have "isl (simulate_attempt client (replies 10))" by (auto simp: transient_iff)
    then show "isl (snd (simulateTransactionStrongPromise client replies 0))
           \<and> snd (simulateTransactionStrongPromise client replies 0)
               = simulate_attempt client (replies 10)
           \<and> simulations (fst (simulateTransactionStrongPromise client replies 0)) = 11"
      using strong_exhausted[OF assms, of 0 replies] all by simp
  qed
  have e: "\<forall>k\<le>10. (\<forall>j<k. transient client (replies j)) \<and> \<not> transient client (replies k) \<longrightarrow>
             snd (simulateTransactionStrongPromise client replies 0)
               = simulate_attempt client (replies k)
           \<and> simulations (fst (simulateTransactionStrongPromise client replies 0)) = k + 1"
    using strong_settles_at[OF assms, of 0 _ replies] by simp
  have f: "\<exists>n\<le>10. fst (simulateTransactionStrongPromise client replies 0)
                     = concat (replicate n [SimulateTransaction, SetTimeout 50])
                         @ [SimulateTransaction]"
    using strong_trace_exact[OF assms, of 0 replies] by simp
  show ?thesis using a b c d e f by blast
qed

text \<open>Against a node that always reports a missing blockhash: eleven calls, ten
  delays of 50 ms, and a rejection.\<close>

lemma always_expired_transient: "transient demo_client (always_expired k)"
  by (simp add: transient_def simulate_attempt_def always_expired_def
      parseTransactionError_blockhash thrown_AdrenaTransactionError_def blockhash_expired_def
      errString_of_def)

lemma demo_connection: "connection demo_client"
  by (simp add: connection_def demo_client_def)

theorem simulateTransactionStrongPromise_bounded_retries_witness:
  "simulations (fst (simulateTransactionStrongPromise demo_client always_expired 0)) = 11
   \<and> timeouts (fst (simulateTransactionStrongPromise demo_client always_expired 0))
       = replicate 10 50
   \<and> snd (simulateTransactionStrongPromise demo_client always_expired 0)
       = Inl (JAdrena None ''BlockhashNotFound'')"
proof -
  have att: "simulate_attempt demo_client (always_expired 10)
               = Inl (JAdrena None ''BlockhashNotFound'')"
    by (simp add: simulate_attempt_def always_expired_def parseTransactionError_blockhash
        thrown_AdrenaTransactionError_def)
  show ?thesis
    using simulateTransactionStrongPromise_bounded_retries
            [OF demo_connection, of always_expired]
      always_expired_transient att
    by simp
qed

section \<open>Theorems: submission\<close>

lemma io_bind_throws: "snd m = Inl e \<Longrightarrow> io_bind m f = (fst m, Inl e)"
  by (simp add: io_bind_def)

lemma io_bind_continues: "snd m = Inr a \<Longrightarrow> io_bind m f = (fst m @ fst (f a), snd (f a))"
  by (simp add: io_bind_def)

lemma broadcasts_append [simp]: "broadcasts (xs @ ys) = broadcasts xs + broadcasts ys"
  by (simp add: broadcasts_def)

lemma broadcasts_notify [simp]: "ev \<noteq> SendRawTransaction \<Longrightarrow> broadcasts (notify n ev) = 0"
  by (simp add: broadcasts_def notify_def)

lemma translate_and_throw_quiet:
  "isl (snd (translate_and_throw program notification err))
   \<and> broadcasts (fst (translate_and_throw program notification err)) = 0"
  by (simp add: translate_and_throw_def broadcasts_def notify_def split: sum.splits)

lemma fetchLatestBlockhash_quiet:
  "broadcasts (fst (fetchLatestBlockhash client net notification)) = 0"
  using translate_and_throw_quiet[of "adrenaProgram client" notification]
  by (auto simp: fetchLatestBlockhash_def io_bind_def broadcasts_def split: sum.splits)

lemma simulateTransaction_quiet:
  "broadcasts (fst (simulateTransaction client replies)) = 0"
  using strong_trace_shape[of client replies 0]
  by (simp add: simulateTransaction_def simulateTransactionStrong_def broadcasts_def)

lemma simulateStep_fails:
  assumes "simulation_failed (simulateTransaction client (simulateTransaction_reply net))"
  shows "isl (snd (simulateStep client net notification))
       \<and> broadcasts (fst (simulateStep client net notification)) = 0"
proof (cases "snd (simulateTransaction client (simulateTransaction_reply net))")
  case (Inl err)
  then show ?thesis
    using translate_and_throw_quiet[of "adrenaProgram client" notification err]
      simulateTransaction_quiet[of client "simulateTransaction_reply net"]
    by (simp add: simulateStep_def Let_def io_bind_def)
next
  case (Inr simulationResult)
  with assms have "truthy (sim_err simulationResult)"
    by (simp add: simulation_failed_def)
  then show ?thesis
    using Inr translate_and_throw_quiet[of "adrenaProgram client" notification]
      simulateTransaction_quiet[of client "simulateTransaction_reply net"]
    by (simp add: simulateStep_def Let_def io_bind_def)
qed

text \<open>
  Claim C3. If the simulation of a draft fails (the simulate call rejects, or its
  response carries an error), \<^verbatim>\<open>signAndExecuteTxAlternative\<close> throws and its trace
  holds no \<^verbatim>\<open>sendRawTransaction\<close>: neither the first broadcast nor a re-broadcast
  is reached.
\<close>

theorem failed_simulation_never_broadcasts:
  assumes "simulation_failed (simulateTransaction client (simulateTransaction_reply net))"
  shows "isl (snd (signAndExecuteTxAlternative client net walletName notification transaction))
       \<and> broadcasts (fst (signAndExecuteTxAlternative client net walletName notification
                             transaction)) = 0"
proof (cases "adrenaProgram client \<noteq> None \<and> connection client")
  case False
  then show ?thesis
    by (simp add: signAndExecuteTxAlternative_def broadcasts_def)
next
  case True
  show ?thesis
  proof (cases "snd (fetchLatestBlockhash client net notification)")
    case (Inl err)
    then show ?thesis
      using True fetchLatestBlockhash_quiet[of client net notification]
      by (simp add: signAndExecuteTxAlternative_def io_bind_throws)
  next
    case (Inr latestBlockHash)
    obtain thrown where thrown: "snd (simulateStep client net notification) = Inl thrown"
      using simulateStep_fails[OF assms, of notification]
      by (cases "snd (simulateStep client net notification)") auto
    have fee: "snd (refreshPriorityFee client net)
                 = Inr (case getMeanPrioritizationFee_reply net of
                          Inr fee \<Rightarrow> fee
                        | Inl err \<Rightarrow> DEFAULT_PRIORITY_FEES (priorityFeeOption client))"
      and fee_trace: "fst (refreshPriorityFee client net) = [GetMeanPrioritizationFee]"
      by (simp_all add: refreshPriorityFee_def)
    show ?thesis
      using True Inr thrown fee_trace
        fetchLatestBlockhash_quiet[of client net notification]
        simulateStep_fails[OF assms, of notification]
      by (simp add: signAndExecuteTxAlternative_def io_bind_continues[OF Inr]
          io_bind_continues[OF fee] io_bind_throws[OF thrown] broadcasts_def)
  qed
qed

text \<open>Against an unreachable node the submission throws without a broadcast.\<close>

lemma unreachable_fails:
  "simulation_failed (simulateTransaction demo_client (simulateTransaction_reply unreachable_net))"
  by (simp add: simulation_failed_def simulateTransaction_def simulateTransactionStrong_def
      demo_connection unreachable_net_def
      strong_rejects[of demo_client _ 0 "JError ''Error'' ''fetch failed''"]
      simulate_attempt_def blockhash_expired_def errString_of_def)

theorem failed_simulation_never_broadcasts_witness:
  "isl (snd (signAndExecuteTxAlternative demo_client unreachable_net ''Phantom'' True
               [ProgramInstruction 0]))
   \<and> broadcasts (fst (signAndExecuteTxAlternative demo_client unreachable_net ''Phantom'' True
                        [ProgramInstruction 0])) = 0"
  using failed_simulation_never_broadcasts[OF unreachable_fails] by simp

text \<open>Against a healthy node the same function simulates, signs the budgeted
  instructions, broadcasts once and returns the signature after one poll.\<close>

lemma healthy_run:
  "signAndExecuteTxAlternative demo_client healthy_net ''Phantom'' False [ProgramInstruction 0]
     = ([GetLatestBlockhash, GetMeanPrioritizationFee, SimulateTransaction,
         SignTransaction [SetComputeUnitPrice 250000, SetComputeUnitLimit 210000,
                          ProgramInstruction 0],
         SendRawTransaction, GetSignatureStatus],
        Inr ''signature'')"
proof -
  have sim: "simulateTransaction demo_client (simulateTransaction_reply healthy_net)
               = ([SimulateTransaction],
                  Inr \<lparr> sim_err = JNull, unitsConsumed = Some 200000 \<rparr>)"
    by (simp add: simulateTransaction_def simulateTransactionStrong_def demo_connection
        healthy_net_def simulate_attempt_def
        strong_resolves[of demo_client _ 0 "\<lparr> sim_err = JNull, unitsConsumed = Some 200000 \<rparr>"])
  have budget: "budgetedInstructions demo_client ''Phantom'' 250000 (Some 200000)
                  [ProgramInstruction 0]
                = [SetComputeUnitPrice 250000, SetComputeUnitLimit 210000, ProgramInstruction 0]"
    by (simp add: budgetedInstructions_def adjustComputeUnitLimit_def adjustPriorityFee_def
        unshiftComputeBudget_def demo_client_def LAMPORTS_PER_SOL_def Let_def)
  have loop: "confirmLoop healthy_net 0 0 None
                = ([GetSignatureStatus],
                   Inr (True, Some (Some \<lparr> confirmations = Some 11, status_err = JNull \<rparr>)))"
    by (subst confirmLoop.simps) (simp add: is_confirmed_def poll_def healthy_net_def)
  have prog: "adrenaProgram demo_client = Some demo_idl"
    by (simp add: demo_client_def)
  have replies: "getLatestBlockhash_reply healthy_net = Inr ''blockhash''"
    "getMeanPrioritizationFee_reply healthy_net = Inr 250000"
    "signTransaction_reply healthy_net = Inr (Some ''signature'')"
    "sendRawTransaction_reply healthy_net 0 = None"
    by (simp_all add: healthy_net_def)
  show ?thesis
    by (simp add: signAndExecuteTxAlternative_def io_bind_def fetchLatestBlockhash_def
        refreshPriorityFee_def simulateStep_def sim Let_def notify_def signStep_def
        firstBroadcast_def confirmStep_def loop afterLoop_def confirmation_failed_def
        demo_connection budget prog replies)
qed

section \<open>Theorems: loading a user profile\<close>




section \<open>Theorems: position addresses\<close>







text \<open>
  The agreement of the cache is kept by every call when \<^verbatim>\<open>toBase58\<close> is injective
  and prints no dash: two different (owner, mint, side) then never share a key.
\<close>

lemma dash_split:
  assumes "CHR ''-'' \<notin> set a" and "CHR ''-'' \<notin> set a'"
    and "a @ CHR ''-'' # r = a' @ CHR ''-'' # r'"
  shows "a = a' \<and> r = r'"
  using assms
proof (induction a arbitrary: a')
  case Nil
  then show ?case by (cases a') auto
next
  case (Cons x xs)
  then show ?case by (cases a') auto
qed

lemma side_text_inj: "side_text s = side_text s' \<Longrightarrow> s = s'"
  by (cases s; cases s') simp_all

lemma positionCacheKey_inj:
  assumes "base58_like toBase58"
    and "positionCacheKey toBase58 owner token sd = positionCacheKey toBase58 owner' token' sd'"
  shows "owner = owner' \<and> token_mint token = token_mint token' \<and> sd = sd'"
proof -
  from assms(1) have nodash: "\<And>k. CHR ''-'' \<notin> set (toBase58 k)" and inj: "inj toBase58"
    by (auto simp: base58_like_def)
  from assms(2) have
    "toBase58 owner @ CHR ''-'' # (toBase58 (token_mint token) @ CHR ''-'' # side_text sd)
     = toBase58 owner' @ CHR ''-'' # (toBase58 (token_mint token') @ CHR ''-'' # side_text sd')"
    by (simp add: positionCacheKey_def)
  from dash_split[OF nodash nodash this]
  have o: "toBase58 owner = toBase58 owner'"
    and rest: "toBase58 (token_mint token) @ CHR ''-'' # side_text sd
             = toBase58 (token_mint token') @ CHR ''-'' # side_text sd'"
    by auto
  from dash_split[OF nodash nodash rest]
  have m: "toBase58 (token_mint token) = toBase58 (token_mint token')"
    and s: "side_text sd = side_text sd'" by auto
  show ?thesis using o m s inj side_text_inj by (auto dest: injD)
qed

lemma getPositionPda_memoized:
  assumes "base58_like toBase58" and "cache_agrees toBase58 client"
  shows "fst (getPositionPda toBase58 client owner token sd)
           = derivePositionPda client owner token sd
       \<and> cache_agrees toBase58 (snd (getPositionPda toBase58 client owner token sd))"
proof (cases "positionPdaCache client (positionCacheKey toBase58 owner token sd)")
  case (Some cached)
  then show ?thesis
    using assms(2) by (auto simp: getPositionPda_def Let_def cache_agrees_def)
next
  case None
  have "cache_agrees toBase58
          (client \<lparr> positionPdaCache := (positionPdaCache client)
             (positionCacheKey toBase58 owner token sd
                \<mapsto> derivePositionPda client owner token sd) \<rparr>)"
    unfolding cache_agrees_def
  proof (intro allI impI)
    fix owner' token' sd' cached
    assume a: "positionPdaCache
          (client \<lparr> positionPdaCache := (positionPdaCache client)
             (positionCacheKey toBase58 owner token sd
                \<mapsto> derivePositionPda client owner token sd) \<rparr>)
          (positionCacheKey toBase58 owner' token' sd') = Some cached"
    show "cached = derivePositionPda
          (client \<lparr> positionPdaCache := (positionPdaCache client)
             (positionCacheKey toBase58 owner token sd
                \<mapsto> derivePositionPda client owner token sd) \<rparr>) owner' token' sd'"
    proof (cases "positionCacheKey toBase58 owner' token' sd'
                    = positionCacheKey toBase58 owner token sd")
      case True
      from positionCacheKey_inj[OF assms(1) True]
      have "derivePositionPda client owner' token' sd' = derivePositionPda client owner token sd"
        by (simp add: derivePositionPda_def)
      then show ?thesis using a True by (simp add: derivePositionPda_def)
    next
      case False
      then show ?thesis
        using a assms(2) by (auto simp: cache_agrees_def derivePositionPda_def)
    qed
  qed
  then show ?thesis using None by (simp add: getPositionPda_def Let_def)
qed

end
